theory Spec2Isabelle
  imports Complex_Main "HOL-Library.Multiset" "HOL-Library.AList" "HOL-Library.Monad_Syntax" "HOL-Library.Char_ord" "HOL-Library.List_Lexorder"
begin

section \<open>JavaScript strings\<close>

text \<open>
  A JavaScript string is modelled as an Isabelle \<open>string\<close>. For ASCII text one \<open>char\<close> is one
  code unit; text outside ASCII is held as its UTF-8 bytes (the em-dash placeholder of the widget
  is three bytes). The built-ins below are modelled on their ASCII behaviour: \<open>trim\<close> removes the
  ASCII white space TAB, LF, VT, FF, CR and SPACE, and \<open>toLowerCase\<close> maps \<open>A..Z\<close> to \<open>a..z\<close>
  and leaves every other \<open>char\<close> alone.
\<close>

definition isWhiteSpace :: "char \<Rightarrow> bool" where
  "isWhiteSpace c = (c = CHR 0x09 \<or> c = CHR 0x0A \<or> c = CHR 0x0B \<or> c = CHR 0x0C
     \<or> c = CHR 0x0D \<or> c = CHR '' '')"

definition trimStart :: "string \<Rightarrow> string" where
  "trimStart s = dropWhile isWhiteSpace s"

definition trimEnd :: "string \<Rightarrow> string" where
  "trimEnd s = rev (dropWhile isWhiteSpace (rev s))"

definition trim :: "string \<Rightarrow> string" where
  "trim s = trimEnd (trimStart s)"

definition isUpper :: "char \<Rightarrow> bool" where
  "isUpper c = (CHR ''A'' \<le> c \<and> c \<le> CHR ''Z'')"

definition lowerChar :: "char \<Rightarrow> char" where
  "lowerChar c = (if isUpper c then char_of (of_char c + (32::nat)) else c)"

definition toLowerCase :: "string \<Rightarrow> string" where
  "toLowerCase s = map lowerChar s"

definition isDigit :: "char \<Rightarrow> bool" where
  "isDigit c = (CHR ''0'' \<le> c \<and> c \<le> CHR ''9'')"

text \<open>The character class \<open>[a-f0-9]\<close> under the \<open>i\<close> flag.\<close>

definition isHexDigit :: "char \<Rightarrow> bool" where
  "isHexDigit c = (isDigit c \<or> (CHR ''a'' \<le> c \<and> c \<le> CHR ''f'') \<or> (CHR ''A'' \<le> c \<and> c \<le> CHR ''F''))"

text \<open>\<open>s.startsWith(p)\<close> and \<open>s.includes(p)\<close>.\<close>

definition startsWith :: "string \<Rightarrow> string \<Rightarrow> bool" where
  "startsWith s p = (take (length p) s = p)"

fun includes_str :: "string \<Rightarrow> string \<Rightarrow> bool" where
  "includes_str [] p = (p = [])"
| "includes_str (c # cs) p = (startsWith (c # cs) p \<or> includes_str cs p)"

text \<open>\<open>s.split(sep)\<close> for a one-character separator: never an empty array.\<close>

fun split_str :: "char \<Rightarrow> string \<Rightarrow> string list" where
  "split_str sep [] = [[]]"
| "split_str sep (c # cs) =
     (if c = sep then [] # split_str sep cs
      else (case split_str sep cs of [] \<Rightarrow> [[c]] | w # ws \<Rightarrow> (c # w) # ws))"

text \<open>\<open>s.replace(/\/$/, "")\<close>: one trailing slash is removed.\<close>

definition stripTrailingSlash :: "string \<Rightarrow> string" where
  "stripTrailingSlash s = (if s \<noteq> [] \<and> last s = CHR ''/'' then butlast s else s)"

text \<open>Decimal rendering of a non-negative integer, as a template literal prints a status code.\<close>

fun natToString :: "nat \<Rightarrow> string" where
  "natToString n =
     (if n < 10 then [char_of (48 + n)] else natToString (n div 10) @ [char_of (48 + n mod 10)])"

declare natToString.simps [simp del]

section \<open>Database id normalisation (code.tsx)\<close>

text \<open>
  \<open>trimmed.match(/([a-f0-9]{32})/i)\<close>: the leftmost run of 32 hexadecimal characters, if any.
\<close>

fun hexMatch :: "string \<Rightarrow> string option" where
  "hexMatch [] = None"
| "hexMatch (c # cs) =
     (if 32 \<le> length (c # cs) \<and> list_all isHexDigit (take 32 (c # cs))
      then Some (take 32 (c # cs)) else hexMatch cs)"

definition normalizeDatabaseId :: "string \<Rightarrow> string" where
  "normalizeDatabaseId input =
     (let trimmed = trim input in
      case hexMatch trimmed of
        Some m \<Rightarrow> toLowerCase m
      | None \<Rightarrow> toLowerCase (filter (\<lambda>c. c \<noteq> CHR ''-'') trimmed))"

section \<open>JavaScript numbers\<close>

text \<open>
  A number is \<open>NaN\<close>, an infinity, or a finite binary64 value, held as the rational it
  denotes. A numeric literal is rounded to the nearest binary64 value, ties to even, and to an
  infinity beyond the largest one (\<open>toDouble\<close>), as the engines do. The sign of zero is not
  modelled: \<open>-0\<close> is held as \<open>0\<close>.
\<close>

datatype jsnum = NaN | NegInfinity | Finite rat | PosInfinity

definition isNaN :: "jsnum \<Rightarrow> bool" where
  "isNaN n = (n = NaN)"

fun negate :: "jsnum \<Rightarrow> jsnum" where
  "negate NaN = NaN"
| "negate NegInfinity = PosInfinity"
| "negate (Finite q) = Finite (- q)"
| "negate PosInfinity = NegInfinity"

text \<open>\<open>a < b\<close> on numbers: false as soon as one side is \<open>NaN\<close>.\<close>

fun num_lt :: "jsnum \<Rightarrow> jsnum \<Rightarrow> bool" where
  "num_lt NaN _ = False"
| "num_lt _ NaN = False"
| "num_lt NegInfinity b = (b \<noteq> NegInfinity)"
| "num_lt (Finite a) (Finite b) = (a < b)"
| "num_lt (Finite a) b = (b = PosInfinity)"
| "num_lt PosInfinity _ = False"

text \<open>Rounding a rational to binary64.\<close>

function bitLength :: "int \<Rightarrow> int" where
  "bitLength n = (if n \<le> 0 then 0 else 1 + bitLength (n div 2))"
  by pat_completeness auto
termination
  by (relation "measure nat") auto

declare bitLength.simps [simp del]

definition pow2 :: "int \<Rightarrow> rat" where
  "pow2 e = (if 0 \<le> e then 2 ^ nat e else 1 / 2 ^ nat (- e))"

text \<open>The exponent \<open>e\<close> with \<open>2 ^ e \<le> a < 2 ^ (e + 1)\<close>, for a positive \<open>a\<close>.\<close>

definition floorLog2 :: "rat \<Rightarrow> int" where
  "floorLog2 a =
     (let (p, q) = quotient_of a;
          e0 = bitLength p - bitLength q
      in if pow2 e0 \<le> a then e0 else e0 - 1)"

definition roundHalfEven :: "rat \<Rightarrow> int" where
  "roundHalfEven m =
     (let n = \<lfloor>m\<rfloor>; f = m - of_int n in
      if f < 1 / 2 then n else if 1 / 2 < f then n + 1 else if even n then n else n + 1)"

definition toDouble :: "rat \<Rightarrow> jsnum" where
  "toDouble q =
     (if q = 0 then Finite 0
      else
        (let a = \<bar>q\<bar>;
             e = max (floorLog2 a) (- 1022);
             ulp = pow2 (e - 52);
             r = of_int (roundHalfEven (a / ulp)) * ulp
         in if pow2 1024 \<le> r then (if 0 < q then PosInfinity else NegInfinity)
            else Finite (if 0 < q then r else - r)))"

fun roundNumber :: "jsnum \<Rightarrow> jsnum" where
  "roundNumber (Finite q) = toDouble q"
| "roundNumber n = n"

definition digitVal :: "char \<Rightarrow> int" where
  "digitVal c =
     (if isDigit c then of_char c - 48
      else if CHR ''a'' \<le> c \<and> c \<le> CHR ''f'' then of_char c - 87
      else of_char c - 55)"

definition digitsVal :: "int \<Rightarrow> string \<Rightarrow> int" where
  "digitsVal radix ds = foldl (\<lambda>a c. radix * a + digitVal c) 0 ds"

definition pow10 :: "int \<Rightarrow> rat" where
  "pow10 e = (if 0 \<le> e then 10 ^ nat e else 1 / 10 ^ nat (- e))"

text \<open>
  The grammar of \<open>StrDecimalLiteral\<close> (ECMA-262, StringToNumber and \<open>parseFloat\<close>): an optional
  sign, then \<open>Infinity\<close>, or digits with an optional fraction and an optional exponent. Each
  parser returns the exact value of the longest prefix it accepts, with the rest of the input;
  \<open>parseFloat\<close> and \<open>Number\<close> round that value to binary64.
\<close>

definition parseExponent :: "string \<Rightarrow> int \<times> string" where
  "parseExponent s =
     (case s of
        [] \<Rightarrow> (0, s)
      | c # r \<Rightarrow>
          if c = CHR ''e'' \<or> c = CHR ''E'' then
            (let (sgn, r1) =
                   (case r of
                      [] \<Rightarrow> (1, r)
                    | d # r' \<Rightarrow> if d = CHR ''+'' then (1, r') else if d = CHR ''-'' then (- 1, r')
                               else (1, r));
                 es = takeWhile isDigit r1
             in if es = [] then (0, s) else (sgn * digitsVal 10 es, dropWhile isDigit r1))
          else (0, s))"

definition parseUnsignedDecimal :: "string \<Rightarrow> (jsnum \<times> string) option" where
  "parseUnsignedDecimal s =
     (if startsWith s ''Infinity'' then Some (PosInfinity, drop 8 s)
      else
        (let ds = takeWhile isDigit s; r1 = dropWhile isDigit s in
         case r1 of
           [] \<Rightarrow> if ds = [] then None else Some (Finite (of_int (digitsVal 10 ds)), [])
         | c # r \<Rightarrow>
             if c = CHR ''.'' then
               (let fs = takeWhile isDigit r; r2 = dropWhile isDigit r in
                if ds = [] \<and> fs = [] then None
                else (let (e, r3) = parseExponent r2 in
                      Some (Finite (of_int (digitsVal 10 (ds @ fs)) * pow10 (e - int (length fs))), r3)))
             else if ds = [] then None
             else (let (e, r3) = parseExponent r1 in
                   Some (Finite (of_int (digitsVal 10 ds) * pow10 e), r3))))"

definition parseSigned :: "string \<Rightarrow> (jsnum \<times> string) option" where
  "parseSigned s =
     (case s of
        [] \<Rightarrow> None
      | c # r \<Rightarrow>
          if c = CHR ''+'' then parseUnsignedDecimal r
          else if c = CHR ''-'' then map_option (\<lambda>(n, rest). (negate n, rest)) (parseUnsignedDecimal r)
          else parseUnsignedDecimal s)"

text \<open>\<open>parseFloat(s)\<close>: leading white space is skipped, trailing text is ignored.\<close>

definition parseFloat :: "string \<Rightarrow> jsnum" where
  "parseFloat s = (case parseSigned (trimStart s) of None \<Rightarrow> NaN | Some (n, _) \<Rightarrow> roundNumber n)"

text \<open>
  \<open>Number(s)\<close> on a string: the whole trimmed string must be a numeric literal; the empty
  string is 0; \<open>0x\<close>, \<open>0o\<close> and \<open>0b\<close> literals are accepted.
\<close>

definition radixLiteral :: "int \<Rightarrow> (char \<Rightarrow> bool) \<Rightarrow> string \<Rightarrow> jsnum" where
  "radixLiteral radix valid ds =
     (if ds \<noteq> [] \<and> list_all valid ds then toDouble (of_int (digitsVal radix ds)) else NaN)"

definition Number_str :: "string \<Rightarrow> jsnum" where
  "Number_str s =
     (let t = trim s in
      if t = [] then Finite 0
      else if startsWith t ''0x'' \<or> startsWith t ''0X'' then radixLiteral 16 isHexDigit (drop 2 t)
      else if startsWith t ''0o'' \<or> startsWith t ''0O'' then
        radixLiteral 8 (\<lambda>c. CHR ''0'' \<le> c \<and> c \<le> CHR ''7'') (drop 2 t)
      else if startsWith t ''0b'' \<or> startsWith t ''0B'' then
        radixLiteral 2 (\<lambda>c. c = CHR ''0'' \<or> c = CHR ''1'') (drop 2 t)
      else (case parseSigned t of Some (n, []) \<Rightarrow> roundNumber n | _ \<Rightarrow> NaN))"

section \<open>JavaScript values\<close>

text \<open>
  The value of a parsed JSON document, with \<open>undefined\<close> for what a property read returns when
  the property is missing. An object is the list of its entries in their own order; its keys
  are distinct. (An engine lists keys that are array indices, such as \<open>"7"\<close>, before the
  others; the order of the entries modelled here is that of keys that are not.)
\<close>

datatype jsval =
    JUndefined
  | JNull
  | JBool bool
  | JNum jsnum
  | JStr string
  | JArr "jsval list"
  | JObj "(string \<times> jsval) list"

text \<open>
  What the engine and the locale decide: \<open>String(n)\<close> on a number, \<open>n.toLocaleString()\<close>,
  \<open>new Date(s)\<close> followed by \<open>toLocaleDateString()\<close> (\<open>None\<close> for an invalid date),
  \<open>a.localeCompare(b)\<close>, and the message text of a \<open>TypeError\<close>.
\<close>

record js_env =
  numberToString :: "jsnum \<Rightarrow> string"
  numberToLocaleString :: "jsnum \<Rightarrow> string"
  dateToLocaleDateString :: "string \<Rightarrow> string option"
  localeCompare :: "string \<Rightarrow> string \<Rightarrow> int"
  typeErrorMessage :: string

definition isNullish :: "jsval \<Rightarrow> bool" where
  "isNullish v = (v = JUndefined \<or> v = JNull)"

text \<open>\<open>ToBoolean\<close>, as \<open>!value\<close>, \<open>c ? a : b\<close> and \<open>filter(Boolean)\<close> apply it.\<close>

fun truthy :: "jsval \<Rightarrow> bool" where
  "truthy JUndefined = False"
| "truthy JNull = False"
| "truthy (JBool b) = b"
| "truthy (JNum n) = (n \<noteq> NaN \<and> n \<noteq> Finite 0)"
| "truthy (JStr s) = (s \<noteq> [])"
| "truthy (JArr _) = True"
| "truthy (JObj _) = True"

text \<open>\<open>typeof v === "object"\<close>.\<close>

fun isObject :: "jsval \<Rightarrow> bool" where
  "isObject JNull = True"
| "isObject (JArr _) = True"
| "isObject (JObj _) = True"
| "isObject _ = False"

text \<open>
  A property read \<open>v.f\<close>, for the field names the parsers read (none of them is a property of
  an array or of a primitive): \<open>None\<close> is the \<open>TypeError\<close> thrown on \<open>undefined\<close> and \<open>null\<close>.
\<close>

fun getProp :: "jsval \<Rightarrow> string \<Rightarrow> jsval option" where
  "getProp JUndefined f = None"
| "getProp JNull f = None"
| "getProp (JObj kvs) f = Some (case map_of kvs f of None \<Rightarrow> JUndefined | Some x \<Rightarrow> x)"
| "getProp _ f = Some JUndefined"

text \<open>\<open>"f" in v\<close> for an object or an array.\<close>

fun hasProp :: "string \<Rightarrow> jsval \<Rightarrow> bool" where
  "hasProp f (JObj kvs) = (f \<in> fst ` set kvs)"
| "hasProp f _ = False"

fun join :: "string \<Rightarrow> string list \<Rightarrow> string" where
  "join sep [] = []"
| "join sep [x] = x"
| "join sep (x # y # ys) = x @ sep @ join sep (y # ys)"

text \<open>\<open>String(v)\<close>; inside an array, \<open>undefined\<close> and \<open>null\<close> print as the empty string.\<close>

fun ToString :: "js_env \<Rightarrow> jsval \<Rightarrow> string" where
  "ToString E JUndefined = ''undefined''"
| "ToString E JNull = ''null''"
| "ToString E (JBool b) = (if b then ''true'' else ''false'')"
| "ToString E (JNum n) = numberToString E n"
| "ToString E (JStr s) = s"
| "ToString E (JArr xs) = join '','' (map (\<lambda>x. if isNullish x then [] else ToString E x) xs)"
| "ToString E (JObj kvs) = ''[object Object]''"

text \<open>\<open>xs.join(sep)\<close> on an array of values.\<close>

definition joinVals :: "js_env \<Rightarrow> string \<Rightarrow> jsval list \<Rightarrow> string" where
  "joinVals E sep xs = join sep (map (\<lambda>x. if isNullish x then [] else ToString E x) xs)"

text \<open>\<open>xs.map(f)\<close> where \<open>f\<close> may throw: the first exception ends the call.\<close>

fun mapM :: "('a \<Rightarrow> 'b option) \<Rightarrow> 'a list \<Rightarrow> 'b list option" where
  "mapM f [] = Some []"
| "mapM f (x # xs) = do { y \<leftarrow> f x; ys \<leftarrow> mapM f xs; Some (y # ys) }"

section \<open>Field decoder (notion-parsers.ts)\<close>

definition richTextItem :: "jsval \<Rightarrow> jsval option" where
  "richTextItem t =
     do {
       pt \<leftarrow> getProp t ''plain_text'';
       if \<not> isNullish pt then Some pt
       else do {
         tx \<leftarrow> getProp t ''text'';
         if \<not> isNullish tx then do {
           c \<leftarrow> getProp tx ''content'';
           if \<not> isNullish c then Some c else Some (JStr [])
         }
         else Some (JStr [])
       }
     }"

definition richTextToStr :: "js_env \<Rightarrow> jsval \<Rightarrow> jsval option" where
  "richTextToStr E richText =
     (case richText of
        JArr items \<Rightarrow> do { parts \<leftarrow> mapM richTextItem items; Some (JStr (joinVals E [] parts)) }
      | _ \<Rightarrow> Some (JStr []))"

text \<open>The guard \<open>v.f != null && v.f.g != null ? v.f.g : ""\<close> of select, status and date.\<close>

definition nestedOrEmpty :: "jsval \<Rightarrow> string \<Rightarrow> string \<Rightarrow> jsval option" where
  "nestedOrEmpty v f g =
     do {
       x \<leftarrow> getProp v f;
       if \<not> isNullish x then do {
         y \<leftarrow> getProp x g;
         if \<not> isNullish y then Some y else Some (JStr [])
       }
       else Some (JStr [])
     }"

text \<open>\<open>(v.f != null ? v.f : []).map(g)\<close>: calling \<open>map\<close> on anything but an array throws.\<close>

definition mapOrThrow :: "jsval \<Rightarrow> (jsval \<Rightarrow> jsval option) \<Rightarrow> jsval list option" where
  "mapOrThrow x g =
     (case (if \<not> isNullish x then x else JArr []) of JArr xs \<Rightarrow> mapM g xs | _ \<Rightarrow> None)"

text \<open>The body of the \<open>switch (v.type)\<close> of \<open>parseNotionProperties\<close>: the value stored in the cell.\<close>

definition decodeProperty :: "js_env \<Rightarrow> jsval \<Rightarrow> jsval option" where
  "decodeProperty E v =
     do {
       ty \<leftarrow> getProp v ''type'';
       if ty = JStr ''title'' then do { x \<leftarrow> getProp v ''title''; richTextToStr E x }
       else if ty = JStr ''rich_text'' then do { x \<leftarrow> getProp v ''rich_text''; richTextToStr E x }
       else if ty = JStr ''number'' then do {
         n \<leftarrow> getProp v ''number'';
         Some (JStr (if \<not> isNullish n then ToString E n else []))
       }
       else if ty = JStr ''select'' then nestedOrEmpty v ''select'' ''name''
       else if ty = JStr ''multi_select'' then do {
         ms \<leftarrow> getProp v ''multi_select'';
         names \<leftarrow> mapOrThrow ms (\<lambda>s. getProp s ''name'');
         Some (JStr (joinVals E '', '' names))
       }
       else if ty = JStr ''checkbox'' then do {
         c \<leftarrow> getProp v ''checkbox'';
         Some (JStr (if truthy c then ''Yes'' else ''No''))
       }
       else if ty = JStr ''date'' then nestedOrEmpty v ''date'' ''start''
       else if ty = JStr ''url'' then do {
         u \<leftarrow> getProp v ''url'';
         Some (if \<not> isNullish u then u else JStr [])
       }
       else if ty = JStr ''status'' then nestedOrEmpty v ''status'' ''name''
       else if ty = JStr ''people'' then do {
         ps \<leftarrow> getProp v ''people'';
         names \<leftarrow> mapOrThrow ps
           (\<lambda>p. do { n \<leftarrow> getProp p ''name''; Some (if isNullish n then JStr [] else n) });
         Some (JStr (joinVals E '', '' (filter truthy names)))
       }
       else if ty = JStr ''formula'' then do {
         f \<leftarrow> getProp v ''formula'';
         if isNullish f then Some (JStr [])
         else do {
           s \<leftarrow> getProp f ''string'';
           if \<not> isNullish s then Some (JStr (ToString E s))
           else do {
             n \<leftarrow> getProp f ''number'';
             if \<not> isNullish n then Some (JStr (ToString E n))
             else do {
               b \<leftarrow> getProp f ''boolean'';
               Some (JStr (case b of JBool x \<Rightarrow> if x then ''Yes'' else ''No'' | _ \<Rightarrow> []))
             }
           }
         }
       }
       else if ty = JStr ''rollup'' then do {
         r \<leftarrow> getProp v ''rollup'';
         if isNullish r then Some (JStr [])
         else do {
           n \<leftarrow> getProp r ''number'';
           if \<not> isNullish n then Some (JStr (ToString E n))
           else do {
             a \<leftarrow> getProp r ''array'';
             Some (JStr (case a of JArr xs \<Rightarrow> natToString (length xs) | _ \<Rightarrow> []))
           }
         }
       }
       else Some (JStr [])
     }"

text \<open>
  The assignment \<open>cells[key] = c\<close> on the object literal \<open>cells\<close>, as the own entries it
  leaves. For the key \<open>__proto__\<close> the assignment runs the setter of \<open>Object.prototype\<close>: it
  stores no entry (a string is ignored; an object would become the prototype of \<open>cells\<close>, which
  its own entries do not show).
\<close>

definition assignCell :: "string \<Rightarrow> jsval \<Rightarrow> (string \<times> jsval) list \<Rightarrow> (string \<times> jsval) list" where
  "assignCell key c cells = (if key = ''__proto__'' then cells else AList.update key c cells)"

text \<open>
  The loop of \<open>parseNotionProperties\<close> over \<open>Object.entries(properties)\<close>, with the cells
  assigned so far; \<open>None\<close> is the exception that ends the call.
\<close>

fun parseLoop :: "js_env \<Rightarrow> (string \<times> jsval) list \<Rightarrow> (string \<times> jsval) list \<Rightarrow> (string \<times> jsval) list option" where
  "parseLoop E cells [] = Some cells"
| "parseLoop E cells ((key, v) # rest) =
     (if \<not> truthy v \<or> \<not> isObject v then parseLoop E cells rest
      else do { c \<leftarrow> decodeProperty E v; parseLoop E (assignCell key c cells) rest })"

definition parseNotionProperties :: "js_env \<Rightarrow> (string \<times> jsval) list \<Rightarrow> (string \<times> jsval) list option" where
  "parseNotionProperties E properties = parseLoop E [] properties"

section \<open>Write-back mapper and display formatting (notion-parsers.ts)\<close>

text \<open>\<open>/^(1|true|yes)$/i.test(value.trim())\<close>.\<close>

definition matchesYes :: "string \<Rightarrow> bool" where
  "matchesYes v = (toLowerCase (trim v) \<in> set [''1'', ''true'', ''yes''])"

text \<open>\<open>isNaN(n)\<close> on the value \<open>n\<close> of the number case: \<open>null\<close> converts to 0.\<close>

fun isNaN_val :: "jsval \<Rightarrow> bool" where
  "isNaN_val (JNum n) = isNaN n"
| "isNaN_val _ = False"

definition textRun :: "string \<Rightarrow> jsval" where
  "textRun v = JArr [JObj [(''text'', JObj [(''content'', JStr v)])]]"

definition buildNotionPropertyUpdate :: "string \<Rightarrow> string \<Rightarrow> string \<Rightarrow> (string \<times> jsval) list" where
  "buildNotionPropertyUpdate propertyName ty v =
     (if ty = ''title'' then
        [(propertyName, JObj [(''type'', JStr ''title''), (''title'', textRun v)])]
      else if ty = ''rich_text'' then
        [(propertyName, JObj [(''type'', JStr ''rich_text''), (''rich_text'', textRun v)])]
      else if ty = ''number'' then
        (let n = (if v = [] then JNull else JNum (Number_str v)) in
         [(propertyName, JObj [(''type'', JStr ''number''), (''number'', if isNaN_val n then JNull else n)])])
      else if ty = ''checkbox'' then
        [(propertyName, JObj [(''type'', JStr ''checkbox''), (''checkbox'', JBool (matchesYes v))])]
      else if ty = ''date'' then
        [(propertyName, JObj [(''type'', JStr ''date''),
           (''date'', if v \<noteq> [] then JObj [(''start'', JStr v), (''end'', JNull)] else JNull)])]
      else if ty = ''url'' then
        [(propertyName, JObj [(''type'', JStr ''url''), (''url'', if v \<noteq> [] then JStr v else JNull)])]
      else if ty = ''select'' then
        [(propertyName, JObj [(''type'', JStr ''select''),
           (''select'', if v \<noteq> [] then JObj [(''name'', JStr v)] else JNull)])]
      else if ty = ''status'' then
        [(propertyName, JObj [(''type'', JStr ''status''),
           (''status'', if v \<noteq> [] then JObj [(''name'', JStr v)] else JNull)])]
      else
        [(propertyName, JObj [(''type'', JStr ''rich_text''), (''rich_text'', textRun v)])])"

text \<open>The em-dash placeholder and the check mark, as UTF-8.\<close>

definition emDash :: string where
  "emDash = [CHR 0xE2, CHR 0x80, CHR 0x94]"

definition checkMark :: string where
  "checkMark = [CHR 0xE2, CHR 0x9C, CHR 0x93]"

definition formatCellForDisplay :: "js_env \<Rightarrow> string \<Rightarrow> string \<Rightarrow> string" where
  "formatCellForDisplay E ty v =
     (if v = [] then emDash
      else if ty = ''checkbox'' then (if matchesYes v then checkMark else emDash)
      else if ty = ''date'' then (case dateToLocaleDateString E v of Some d \<Rightarrow> d | None \<Rightarrow> v)
      else if ty = ''number'' then
        (let n = parseFloat v in if isNaN n then v else numberToLocaleString E n)
      else v)"

definition isReadOnlyType :: "string \<Rightarrow> bool" where
  "isReadOnlyType ty = (ty = ''formula'' \<or> ty = ''rollup'' \<or> ty = ''people'')"

section \<open>Interfaces (notion-types.ts)\<close>

record NotionPage =
  page_id :: string
  properties :: "(string \<times> jsval) list"
  page_created_time :: "string option"
  page_last_edited_time :: "string option"

record NotionDatabaseQueryResponse =
  results :: "NotionPage list option"

record SelectOption =
  opt_name :: string
  opt_color :: "string option"

text \<open>
  One entry of the schema's \<open>properties\<close>: \<open>select\<close> and \<open>status\<close> may be missing, and so may
  their \<open>options\<close>.
\<close>

record SchemaProperty =
  sp_select :: "SelectOption list option option"
  sp_status :: "SelectOption list option option"

record NotionDatabaseResponse =
  schema_properties :: "(string \<times> SchemaProperty) list option"

record ColumnDef =
  col_name :: string
  propertyName :: string
  col_type :: string
  col_options :: "SelectOption list option"

record RowData =
  pageId :: string
  cells :: "(string \<times> string) list"
  created_time :: "string option"
  last_edited_time :: "string option"

section \<open>Column inference and schema merge (notion-parsers.ts)\<close>

text \<open>
  The widget state holds columns and cells at their declared types, where a type tag and a
  cell are strings. \<open>asString\<close> is the unchecked cast at that boundary: remote data whose tag
  or decoded cell is not a string is outside the declared interfaces, and the functions that
  build the state return \<open>IllTyped\<close> for it. \<open>Thrown m\<close> is an exception with message \<open>m\<close>.
\<close>

datatype 'a outcome = Thrown string | IllTyped | Done 'a

fun bindOutcome :: "'a outcome \<Rightarrow> ('a \<Rightarrow> 'b outcome) \<Rightarrow> 'b outcome" where
  "bindOutcome (Thrown m) f = Thrown m"
| "bindOutcome IllTyped f = IllTyped"
| "bindOutcome (Done x) f = f x"

fun asString :: "jsval \<Rightarrow> string outcome" where
  "asString (JStr s) = Done s"
| "asString _ = IllTyped"

fun mapOutcome :: "('a \<Rightarrow> 'b outcome) \<Rightarrow> 'a list \<Rightarrow> 'b list outcome" where
  "mapOutcome f [] = Done []"
| "mapOutcome f (x # xs) =
     bindOutcome (f x) (\<lambda>y. bindOutcome (mapOutcome f xs) (\<lambda>ys. Done (y # ys)))"

text \<open>A parser's exception, as an outcome.\<close>

definition orThrow :: "js_env \<Rightarrow> 'a option \<Rightarrow> 'a outcome" where
  "orThrow E x = (case x of None \<Rightarrow> Thrown (typeErrorMessage E) | Some y \<Rightarrow> Done y)"

definition columnOfEntry :: "js_env \<Rightarrow> string \<times> jsval \<Rightarrow> ColumnDef outcome" where
  "columnOfEntry E e =
     bindOutcome (orThrow E (getProp (snd e) ''type'')) (\<lambda>ty.
     bindOutcome (asString ty) (\<lambda>t.
       Done \<lparr>col_name = fst e, propertyName = fst e, col_type = t, col_options = None\<rparr>))"

definition parseNotionColumns :: "js_env \<Rightarrow> NotionPage list \<Rightarrow> ColumnDef list outcome" where
  "parseNotionColumns E rs =
     (case rs of
        [] \<Rightarrow> Done []
      | first # _ \<Rightarrow>
          mapOutcome (columnOfEntry E)
            (filter (\<lambda>(name, v). truthy v \<and> isObject v \<and> hasProp ''type'' v) (properties first)))"

text \<open>
  The value of \<open>(col.type === "select" && prop.select?.options) ?? (col.type === "status" &&
  prop.status?.options)\<close>: \<open>false\<close>, \<open>undefined\<close> or a list of options.
\<close>

datatype optsval = OFalse | OUndefined | OList "SelectOption list"

definition andOptions :: "bool \<Rightarrow> SelectOption list option option \<Rightarrow> optsval" where
  "andOptions c x =
     (if c then (case x of Some (Some os) \<Rightarrow> OList os | _ \<Rightarrow> OUndefined) else OFalse)"

definition mergeSchemaOptions :: "ColumnDef list \<Rightarrow> NotionDatabaseResponse option \<Rightarrow> ColumnDef list" where
  "mergeSchemaOptions cols schema =
     (case schema of
        None \<Rightarrow> cols
      | Some sch \<Rightarrow>
          (case schema_properties sch of
             None \<Rightarrow> cols
           | Some props \<Rightarrow>
               map (\<lambda>col.
                 case map_of props (propertyName col) of
                   None \<Rightarrow> col
                 | Some prop \<Rightarrow>
                     (let a = andOptions (col_type col = ''select'') (sp_select prop);
                          opts = (if a = OUndefined then andOptions (col_type col = ''status'') (sp_status prop)
                                  else a)
                      in case opts of
                           OList os \<Rightarrow>
                             if os = [] then col
                             else col\<lparr>col_options := Some (map (\<lambda>op. \<lparr>opt_name = opt_name op,
                                    opt_color = Some (case opt_color op of None \<Rightarrow> ''default'' | Some c \<Rightarrow> c)\<rparr>) os)\<rparr>
                         | _ \<Rightarrow> col)) cols))"

section \<open>Widget state and remote gateway (code.tsx)\<close>

record EditingCell =
  ec_pageId :: string
  ec_property :: string
  ec_columnType :: "string option"
  ec_value :: string

record state =
  proxyUrl :: string
  databaseId :: string
  columns :: "ColumnDef list"
  rows :: "RowData list"
  lastSynced :: string
  error :: string
  editingCell :: "EditingCell option"
  sortBy :: string
  groupBy :: string
  filterColumn :: string
  filterOp :: string
  filterValue :: string

text \<open>
  A \<open>fetch\<close> either rejects with a message or resolves to a response: its status, its body
  text, and its body parsed as JSON at the type the caller casts it to (\<open>json()\<close> rejects when
  the body is not JSON).
\<close>

datatype 'a promise = Rejected string | Resolved 'a

record 'a response =
  res_status :: nat
  res_text :: string
  res_json :: "'a promise"

definition res_ok :: "'a response \<Rightarrow> bool" where
  "res_ok r = (200 \<le> res_status r \<and> res_status r \<le> 299)"

datatype direction = Ascending | Descending

datatype sortDirective = SortProperty string direction | SortTimestamp string direction

text \<open>
  The three requests the widget sends through the proxy: \<open>GET url\<close>, \<open>POST url\<close> with the
  sorts of the query body, and \<open>PATCH url\<close> with the \<open>properties\<close> of the body.
\<close>

record gateway =
  gw_get :: "string \<Rightarrow> NotionDatabaseResponse response promise"
  gw_post :: "string \<Rightarrow> sortDirective list \<Rightarrow> NotionDatabaseQueryResponse response promise"
  gw_patch :: "string \<Rightarrow> (string \<times> jsval) list \<Rightarrow> unit response promise"

text \<open>\<open>const [key, dir] = sortBy.split(":")\<close>; \<open>dir\<close> is \<open>None\<close> when there is no second part.\<close>

definition splitSortBy :: "string \<Rightarrow> string \<times> string option" where
  "splitSortBy s =
     (case split_str (CHR '':'') s of
        [] \<Rightarrow> ([], None)
      | key # rest \<Rightarrow> (key, case rest of [] \<Rightarrow> None | dir # _ \<Rightarrow> Some dir))"

definition buildSorts :: "state \<Rightarrow> sortDirective list" where
  "buildSorts st =
     (if sortBy st = [] then []
      else
        (let (key, dir) = splitSortBy (sortBy st);
             direction = (if dir = Some ''desc'' then Descending else Ascending)
         in if key = ''created_time'' \<or> key = ''last_edited_time'' then [SortTimestamp key direction]
            else if key \<noteq> [] then [SortProperty key direction] else []))"

definition rightArrow :: string where
  "rightArrow = [CHR 0xE2, CHR 0x86, CHR 0x92]"

definition midEllipsis :: string where
  "midEllipsis = [CHR 0xE2, CHR 0x8B, CHR 0xAF]"

definition databaseNotFoundMessage :: string where
  "databaseNotFoundMessage =
     ''Database not found. Share it with your integration: open the database '' @ rightArrow @ '' ''
       @ midEllipsis @ '' '' @ rightArrow @ '' Connections '' @ rightArrow @ '' Add '' @ rightArrow
       @ '' select your integration.''"

definition queryErrorMessage :: "nat \<Rightarrow> string \<Rightarrow> string" where
  "queryErrorMessage status t =
     (if status = 404 \<or> includes_str t ''could not find'' \<or> includes_str t ''locate database''
      then databaseNotFoundMessage
      else ''Notion API: '' @ natToString status @ '' '' @ take 100 t)"

definition awaitPromise :: "'a promise \<Rightarrow> 'a outcome" where
  "awaitPromise p = (case p of Rejected m \<Rightarrow> Thrown m | Resolved x \<Rightarrow> Done x)"

definition rowOfPage :: "js_env \<Rightarrow> NotionPage \<Rightarrow> RowData outcome" where
  "rowOfPage E page =
     bindOutcome (orThrow E (parseNotionProperties E (properties page))) (\<lambda>cs.
     bindOutcome (mapOutcome (\<lambda>(k, v). bindOutcome (asString v) (\<lambda>s. Done (k, s))) cs) (\<lambda>cells.
       Done \<lparr>pageId = page_id page, cells = cells,
             created_time = page_created_time page, last_edited_time = page_last_edited_time page\<rparr>))"

text \<open>
  The body of the \<open>try\<close> block of \<open>fetchFromNotion\<close>, entered with the error message already
  cleared. Of two rejected requests the schema request is reported.
\<close>

text \<open>The URL of the database, \<open>`${base}/notion/databases/${normalizedId}`\<close>.\<close>

definition databaseUrl :: "state \<Rightarrow> string" where
  "databaseUrl st =
     (let base = stripTrailingSlash (proxyUrl st);
          normalizedId = normalizeDatabaseId (databaseId st)
      in base @ ''/notion/databases/'' @ normalizedId)"

definition syncBody :: "js_env \<Rightarrow> gateway \<Rightarrow> string \<Rightarrow> state \<Rightarrow> state outcome" where
  "syncBody E gw now st =
     (let sorts = buildSorts st in
      bindOutcome (awaitPromise (gw_get gw (databaseUrl st))) (\<lambda>schemaRes.
      bindOutcome (awaitPromise (gw_post gw (databaseUrl st @ ''/query'') sorts)) (\<lambda>queryRes.
        if \<not> res_ok queryRes then
          Done (st\<lparr>error := queryErrorMessage (res_status queryRes) (res_text queryRes)\<rparr>)
        else
          bindOutcome (if res_ok schemaRes then bindOutcome (awaitPromise (res_json schemaRes)) (\<lambda>sch. Done (Some sch))
                       else Done None) (\<lambda>schema.
          bindOutcome (awaitPromise (res_json queryRes)) (\<lambda>data.
            (let rs = (case results data of None \<Rightarrow> [] | Some r \<Rightarrow> r) in
             bindOutcome (parseNotionColumns E rs) (\<lambda>cols.
             bindOutcome (mapOutcome (rowOfPage E) rs) (\<lambda>parsedRows.
               Done (st\<lparr>columns := mergeSchemaOptions cols schema, rows := parsedRows,
                        lastSynced := now\<rparr>)))))))))"

definition fetchFromNotion :: "js_env \<Rightarrow> gateway \<Rightarrow> string \<Rightarrow> state \<Rightarrow> state outcome" where
  "fetchFromNotion E gw now st =
     (if trim (proxyUrl st) = [] \<or> trim (databaseId st) = [] then
        Done (st\<lparr>error := ''Enter proxy URL and database ID above, then Sync.''\<rparr>)
      else
        (case syncBody E gw now (st\<lparr>error := []\<rparr>) of
           Thrown m \<Rightarrow> Done (st\<lparr>error := m\<rparr>)
         | r \<Rightarrow> r))"

text \<open>\<open>cell.columnType ?? (col?.type ?? "rich_text")\<close>.\<close>

definition effectiveType :: "state \<Rightarrow> EditingCell \<Rightarrow> string" where
  "effectiveType st cell =
     (let col = find (\<lambda>c. propertyName c = ec_property cell) (columns st) in
      case ec_columnType cell of
        Some t \<Rightarrow> t
      | None \<Rightarrow> (case col of Some c \<Rightarrow> col_type c | None \<Rightarrow> ''rich_text''))"

definition pageUrl :: "state \<Rightarrow> EditingCell \<Rightarrow> string" where
  "pageUrl st cell = stripTrailingSlash (proxyUrl st) @ ''/notion/pages/'' @ ec_pageId cell"

definition saveCellEdit :: "gateway \<Rightarrow> string \<Rightarrow> state \<Rightarrow> state" where
  "saveCellEdit gw newValue st =
     (case editingCell st of
        None \<Rightarrow> st
      | Some cell \<Rightarrow>
          (let st1 = st\<lparr>editingCell := None\<rparr>;
               payload = buildNotionPropertyUpdate (ec_property cell) (effectiveType st cell) newValue
           in case gw_patch gw (pageUrl st cell) payload of
                Rejected m \<Rightarrow> st1\<lparr>error := m\<rparr>
              | Resolved res \<Rightarrow>
                  if \<not> res_ok res then
                    st1\<lparr>error := ''Update failed: '' @ natToString (res_status res) @ '' '' @ take 80 (res_text res)\<rparr>
                  else
                    st1\<lparr>rows := map (\<lambda>row. if pageId row = ec_pageId cell
                                         then row\<lparr>cells := AList.update (ec_property cell) newValue (cells row)\<rparr>
                                         else row) (rows st1),
                        error := []\<rparr>))"

section \<open>View derivation (code.tsx)\<close>

text \<open>
  The cells of a row are a plain object, so the read \<open>row.cells[key]\<close> sees the own cell when
  there is one, and otherwise what \<open>Object.prototype\<close> holds under that name: a function or an
  object for the names below, \<open>undefined\<close> for any other.
\<close>

definition objectPrototypeKeys :: "string list" where
  "objectPrototypeKeys =
     [''constructor'', ''__defineGetter__'', ''__defineSetter__'', ''hasOwnProperty'',
      ''__lookupGetter__'', ''__lookupSetter__'', ''isPrototypeOf'', ''propertyIsEnumerable'',
      ''toString'', ''valueOf'', ''__proto__'', ''toLocaleString'']"

datatype cellRead = OwnCell string | NoCell | Inherited

definition readCell :: "RowData \<Rightarrow> string \<Rightarrow> cellRead" where
  "readCell row key =
     (case map_of (cells row) key of
        Some v \<Rightarrow> OwnCell v
      | None \<Rightarrow> if key \<in> set objectPrototypeKeys then Inherited else NoCell)"

text \<open>\<open>row.cells[key] ?? dflt\<close>, for a read that is not inherited.\<close>

definition cellOr :: "string \<Rightarrow> RowData \<Rightarrow> string \<Rightarrow> string" where
  "cellOr dflt row key = (case readCell row key of OwnCell v \<Rightarrow> v | _ \<Rightarrow> dflt)"

definition isKnownColumn :: "state \<Rightarrow> string \<Rightarrow> bool" where
  "isKnownColumn st key = list_ex (\<lambda>c. propertyName c = key) (columns st)"

definition rowPasses :: "state \<Rightarrow> string \<Rightarrow> RowData \<Rightarrow> bool" where
  "rowPasses st val row =
     (let cellVal = toLowerCase (cellOr [] row (filterColumn st));
          isEmpty = (cellVal = [] \<or> cellVal = emDash)
      in if filterOp st = ''contains'' then includes_str cellVal val
         else if filterOp st = ''equals'' then cellVal = val
         else if filterOp st = ''is_empty'' then isEmpty
         else if filterOp st = ''is_not_empty'' then \<not> isEmpty
         else True)"

text \<open>
  The callback of \<open>rows.filter\<close> calls \<open>toLowerCase\<close> on the cell it reads: on an inherited
  function or object that call throws, and so does \<open>getFilteredRows\<close>.
\<close>

definition getFilteredRows :: "js_env \<Rightarrow> state \<Rightarrow> RowData list outcome" where
  "getFilteredRows E st =
     (if filterColumn st = [] \<or> \<not> isKnownColumn st (filterColumn st) then Done (rows st)
      else
        (let val = toLowerCase (trim (filterValue st));
             needsValue = (filterOp st \<noteq> ''is_empty'' \<and> filterOp st \<noteq> ''is_not_empty'')
         in if needsValue \<and> val = [] then Done (rows st)
            else if list_ex (\<lambda>row. readCell row (filterColumn st) = Inherited) (rows st) then
              Thrown (typeErrorMessage E)
            else Done (filter (rowPasses st val) (rows st))))"

text \<open>A sort value is a string or a number.\<close>

datatype sortval = SStr string | SNum jsnum

text \<open>
  \<open>getCellSortValue\<close>; \<open>None\<close> is the exception of \<open>toLowerCase\<close> on an inherited value. In a
  number column an inherited value is printed by \<open>parseFloat\<close> as \<open>function ...\<close> or
  \<open>[object Object]\<close> and parses to \<open>NaN\<close>.
\<close>

definition getCellSortValue :: "state \<Rightarrow> RowData \<Rightarrow> string \<Rightarrow> sortval option" where
  "getCellSortValue st row key =
     (if key = ''created_time'' then Some (SStr (case created_time row of None \<Rightarrow> [] | Some t \<Rightarrow> t))
      else if key = ''last_edited_time'' then
        Some (SStr (case last_edited_time row of None \<Rightarrow> [] | Some t \<Rightarrow> t))
      else
        (let v = readCell row key;
             col = find (\<lambda>c. propertyName c = key) (columns st)
         in if map_option col_type col = Some ''number'' then
              (let n = (case v of OwnCell s \<Rightarrow> parseFloat s | NoCell \<Rightarrow> parseFloat [] | Inherited \<Rightarrow> NaN)
               in Some (SNum (if isNaN n then Finite 0 else n)))
            else (case v of
                    OwnCell s \<Rightarrow> Some (SStr (toLowerCase s))
                  | NoCell \<Rightarrow> Some (SStr (toLowerCase []))
                  | Inherited \<Rightarrow> None)))"

text \<open>
  \<open>va < vb\<close>: two strings compare by code units, two numbers numerically, and a string against
  a number is converted to a number first.
\<close>

fun js_lt :: "sortval \<Rightarrow> sortval \<Rightarrow> bool" where
  "js_lt (SStr a) (SStr b) = (a < b)"
| "js_lt (SNum a) (SNum b) = num_lt a b"
| "js_lt (SStr a) (SNum b) = num_lt (Number_str a) b"
| "js_lt (SNum a) (SStr b) = num_lt a (Number_str b)"

text \<open>
  \<open>xs.sort(cmp)\<close>: a stable sort by insertion. For a comparator that is a total preorder every
  stable sort returns this list.
\<close>

fun insertWith :: "('a \<Rightarrow> 'a \<Rightarrow> int) \<Rightarrow> 'a \<Rightarrow> 'a list \<Rightarrow> 'a list" where
  "insertWith cmp x [] = [x]"
| "insertWith cmp x (y # ys) = (if cmp x y \<le> 0 then x # y # ys else y # insertWith cmp x ys)"

definition sortWith :: "('a \<Rightarrow> 'a \<Rightarrow> int) \<Rightarrow> 'a list \<Rightarrow> 'a list" where
  "sortWith cmp xs = foldr (insertWith cmp) xs []"

text \<open>The comparator of \<open>getSortedRows\<close>, where both sort values are read without exception.\<close>

definition rowCompare :: "state \<Rightarrow> string \<Rightarrow> bool \<Rightarrow> RowData \<Rightarrow> RowData \<Rightarrow> int" where
  "rowCompare st key asc a b =
     (case (getCellSortValue st a key, getCellSortValue st b key) of
        (Some va, Some vb) \<Rightarrow>
          (let cmp = (if js_lt va vb then - 1 else if js_lt vb va then 1 else 0)
           in if asc then cmp else - cmp)
      | _ \<Rightarrow> 0)"

text \<open>
  \<open>getSortedRows\<close>. A sort of two or more rows passes every row to the comparator, which reads
  the sort value of both its arguments: the sort throws as soon as one row's read throws. With
  fewer than two rows the comparator is not called.
\<close>

definition getSortedRows :: "js_env \<Rightarrow> state \<Rightarrow> RowData list outcome" where
  "getSortedRows E st =
     bindOutcome (getFilteredRows E st) (\<lambda>filtered.
       if sortBy st = [] then Done filtered
       else
         (let (key, dir) = splitSortBy (sortBy st) in
          if key = [] then Done (rows st)
          else if 2 \<le> length filtered \<and> list_ex (\<lambda>r. getCellSortValue st r key = None) filtered then
            Thrown (typeErrorMessage E)
          else Done (sortWith (rowCompare st key (dir \<noteq> Some ''desc'')) filtered)))"

record RowGroup =
  groupValue :: string
  group_rows :: "RowData list"

text \<open>
  The \<open>Map\<close> filled by the loop of \<open>getGroupedRows\<close>, as the list of its entries in insertion
  order, for rows whose group value is not inherited.
\<close>

fun bucketRows :: "string \<Rightarrow> (string \<times> RowData list) list \<Rightarrow> RowData list \<Rightarrow> (string \<times> RowData list) list" where
  "bucketRows g m [] = m"
| "bucketRows g m (row # rest) =
     (let val = cellOr emDash row g;
          m1 = (if val \<in> fst ` set m then m else m @ [(val, [])])
      in bucketRows g (map (\<lambda>(k, rs). if k = val then (k, rs @ [row]) else (k, rs)) m1) rest)"

text \<open>The comparator of the bucket keys; \<open>na - nb\<close> is kept as its sign.\<close>

definition keyCompare :: "js_env \<Rightarrow> ColumnDef option \<Rightarrow> string \<Rightarrow> string \<Rightarrow> int" where
  "keyCompare E col a b =
     (let na = parseFloat a; nb = parseFloat b in
      if map_option col_type col = Some ''number'' \<and> \<not> isNaN na \<and> \<not> isNaN nb then
        (if num_lt na nb then - 1 else if num_lt nb na then 1 else 0)
      else localeCompare E a b)"

text \<open>
  \<open>getGroupedRows\<close>. An inherited group value is a function or an object, which the \<open>Map\<close>
  takes as a key: the call returns a group whose \<open>groupValue\<close> is no string, or throws when the
  key comparator calls \<open>localeCompare\<close> on it. Either way it has no result of the declared
  type, which is \<open>IllTyped\<close> here.
\<close>

definition getGroupedRows :: "js_env \<Rightarrow> state \<Rightarrow> RowGroup list outcome" where
  "getGroupedRows E st =
     bindOutcome (getSortedRows E st) (\<lambda>sorted.
       if groupBy st = [] \<or> \<not> isKnownColumn st (groupBy st) then
         Done [\<lparr>groupValue = [], group_rows = sorted\<rparr>]
       else if list_ex (\<lambda>row. readCell row (groupBy st) = Inherited) sorted then IllTyped
       else
         (let m = bucketRows (groupBy st) [] sorted;
              col = find (\<lambda>c. propertyName c = groupBy st) (columns st);
              sortedKeys = sortWith (keyCompare E col) (map fst m)
          in Done (map (\<lambda>k. \<lparr>groupValue = k, group_rows = the (map_of m k)\<rparr>) sortedKeys)))"

section \<open>The declared shape of a property value (notion-types.ts)\<close>

text \<open>
  \<open>NotionPropertyValue\<close> as a predicate on values: every payload is missing, \<open>null\<close>, or of the
  shape the interface declares for it. The type tag is left free.
\<close>

fun isStr :: "jsval \<Rightarrow> bool" where
  "isStr (JStr _) = True"
| "isStr _ = False"

fun isNum :: "jsval \<Rightarrow> bool" where
  "isNum (JNum _) = True"
| "isNum _ = False"

fun isBool :: "jsval \<Rightarrow> bool" where
  "isBool (JBool _) = True"
| "isBool _ = False"

fun isRecord :: "jsval \<Rightarrow> bool" where
  "isRecord (JObj _) = True"
| "isRecord _ = False"

fun isArrayOf :: "(jsval \<Rightarrow> bool) \<Rightarrow> jsval \<Rightarrow> bool" where
  "isArrayOf P (JArr xs) = list_all P xs"
| "isArrayOf P _ = False"

definition optField :: "jsval \<Rightarrow> string \<Rightarrow> (jsval \<Rightarrow> bool) \<Rightarrow> bool" where
  "optField v f P = (case getProp v f of None \<Rightarrow> False | Some x \<Rightarrow> isNullish x \<or> P x)"

definition wfNamed :: "string \<Rightarrow> jsval \<Rightarrow> bool" where
  "wfNamed f x = (isRecord x \<and> optField x f isStr)"

definition wfRichTextItem :: "jsval \<Rightarrow> bool" where
  "wfRichTextItem t =
     (isRecord t \<and> optField t ''plain_text'' isStr \<and> optField t ''text'' (wfNamed ''content''))"

definition wfPropertyValue :: "jsval \<Rightarrow> bool" where
  "wfPropertyValue v =
     (isRecord v
      \<and> optField v ''title'' (isArrayOf wfRichTextItem)
      \<and> optField v ''rich_text'' (isArrayOf wfRichTextItem)
      \<and> optField v ''number'' isNum
      \<and> optField v ''select'' (wfNamed ''name'')
      \<and> optField v ''multi_select'' (isArrayOf (wfNamed ''name''))
      \<and> optField v ''checkbox'' isBool
      \<and> optField v ''date'' (wfNamed ''start'')
      \<and> optField v ''url'' isStr
      \<and> optField v ''formula''
            (\<lambda>x. isRecord x \<and> optField x ''string'' isStr \<and> optField x ''number'' isNum
                 \<and> optField x ''boolean'' isBool)
      \<and> optField v ''rollup''
            (\<lambda>x. isRecord x \<and> optField x ''number'' isNum \<and> optField x ''array'' (isArrayOf (\<lambda>_. True)))
      \<and> optField v ''status'' (wfNamed ''name'')
      \<and> optField v ''people'' (isArrayOf (wfNamed ''name'')))"

definition supportedTypes :: "string list" where
  "supportedTypes = [''title'', ''rich_text'', ''number'', ''select'', ''multi_select'', ''checkbox'',
     ''date'', ''url'', ''status'', ''formula'', ''rollup'', ''people'']"

section \<open>An environment for the examples\<close>

text \<open>
  The examples are evaluated in an environment that prints an integer as JavaScript does (a
  fraction, which no example prints, as numerator and denominator), formats without a locale,
  parses no date, and compares strings by code units.
\<close>

definition intToString :: "int \<Rightarrow> string" where
  "intToString i = (if i < 0 then ''-'' @ natToString (nat (- i)) else natToString (nat i))"

fun exampleNumberToString :: "jsnum \<Rightarrow> string" where
  "exampleNumberToString NaN = ''NaN''"
| "exampleNumberToString NegInfinity = ''-Infinity''"
| "exampleNumberToString PosInfinity = ''Infinity''"
| "exampleNumberToString (Finite q) =
     (let (a, b) = quotient_of q in if b = 1 then intToString a else intToString a @ ''/'' @ intToString b)"

definition exampleEnv :: js_env where
  "exampleEnv =
     \<lparr>numberToString = exampleNumberToString,
      numberToLocaleString = exampleNumberToString,
      dateToLocaleDateString = (\<lambda>_. None),
      localeCompare = (\<lambda>a b. if a < b then - 1 else if b < a then 1 else 0),
      typeErrorMessage = ''TypeError''\<rparr>"

text \<open>Scenario A: the properties of record \<open>p1\<close>.\<close>

definition exampleProperties :: "(string \<times> jsval) list" where
  "exampleProperties =
     [(''Name'', JObj [(''type'', JStr ''title''), (''title'', JArr [JObj [(''plain_text'', JStr ''Alpha'')]])]),
      (''Score'', JObj [(''type'', JStr ''number''), (''number'', JNum (Finite 3))])]"

text \<open>A multi-select property whose payload is an object where the interface declares an array.\<close>

definition malformedProperties :: "(string \<times> jsval) list" where
  "malformedProperties =
     [(''Tags'', JObj [(''type'', JStr ''multi_select''), (''multi_select'', JObj [(''name'', JStr ''a'')])])]"

text \<open>A rich-text property whose payload is the same object.\<close>

definition malformedRichText :: "(string \<times> jsval) list" where
  "malformedRichText =
     [(''Notes'', JObj [(''type'', JStr ''rich_text''), (''rich_text'', JObj [(''name'', JStr ''a'')])])]"

text \<open>
  Scenarios C and D: two records with scores \<open>10\<close> and \<open>2\<close> in a number column, sorted
  ascending by score, with an edit of the first score in progress.
\<close>

definition exampleColumns :: "ColumnDef list" where
  "exampleColumns =
     [\<lparr>col_name = ''Name'', propertyName = ''Name'', col_type = ''title'', col_options = None\<rparr>,
      \<lparr>col_name = ''Score'', propertyName = ''Score'', col_type = ''number'', col_options = None\<rparr>]"

definition rowTen :: RowData where
  "rowTen = \<lparr>pageId = ''p1'', cells = [(''Name'', ''Alpha''), (''Score'', ''10'')],
             created_time = None, last_edited_time = None\<rparr>"

definition rowTwo :: RowData where
  "rowTwo = \<lparr>pageId = ''p2'', cells = [(''Name'', ''Beta''), (''Score'', ''2'')],
             created_time = None, last_edited_time = None\<rparr>"

definition exampleCell :: EditingCell where
  "exampleCell = \<lparr>ec_pageId = ''p1'', ec_property = ''Score'', ec_columnType = Some ''number'',
                  ec_value = ''10''\<rparr>"

definition exampleState :: state where
  "exampleState =
     \<lparr>proxyUrl = ''https://proxy.example/'', databaseId = ''d9824bdc-8445-4327-be8b-5b47500af6ce'',
      columns = exampleColumns, rows = [rowTen, rowTwo], lastSynced = ''2024-01-01T00:00:00.000Z'',
      error = [], editingCell = Some exampleCell, sortBy = ''Score:asc'', groupBy = [],
      filterColumn = [], filterOp = ''contains'', filterValue = []\<rparr>"

text \<open>A gateway that answers every request with the same status and body, which is not JSON.\<close>

definition exampleGateway :: "nat \<Rightarrow> string \<Rightarrow> gateway" where
  "exampleGateway status body =
     \<lparr>gw_get = (\<lambda>_. Resolved \<lparr>res_status = status, res_text = body, res_json = Rejected ''Unexpected token''\<rparr>),
      gw_post = (\<lambda>_ _. Resolved \<lparr>res_status = status, res_text = body, res_json = Rejected ''Unexpected token''\<rparr>),
      gw_patch = (\<lambda>_ _. Resolved \<lparr>res_status = status, res_text = body, res_json = Rejected ''Unexpected token''\<rparr>)\<rparr>"

text \<open>
  A table with a third column whose name starts with a colon, sorted by that column through
  the menu option \<open>:x:asc\<close>, and filtered to the rows whose name equals \<open>alpha\<close>.
\<close>

definition colonState :: state where
  "colonState =
     exampleState\<lparr>columns := exampleColumns @
         [\<lparr>col_name = '':x'', propertyName = '':x'', col_type = ''rich_text'', col_options = None\<rparr>],
       sortBy := '':x:asc'', filterColumn := ''Name'', filterOp := ''equals'', filterValue := ''alpha''\<rparr>"

text \<open>
  A table whose number column is named \<open>Est:hrs\<close>, with estimates \<open>10\<close> and \<open>2\<close>, sorted by that
  column through the menu option \<open>Est:hrs:asc\<close> or \<open>Est:hrs:desc\<close>.
\<close>

definition estColumns :: "ColumnDef list" where
  "estColumns =
     [\<lparr>col_name = ''Name'', propertyName = ''Name'', col_type = ''title'', col_options = None\<rparr>,
      \<lparr>col_name = ''Est:hrs'', propertyName = ''Est:hrs'', col_type = ''number'', col_options = None\<rparr>]"

definition estTen :: RowData where
  "estTen = \<lparr>pageId = ''p1'', cells = [(''Name'', ''Alpha''), (''Est:hrs'', ''10'')],
            created_time = None, last_edited_time = None\<rparr>"

definition estTwo :: RowData where
  "estTwo = \<lparr>pageId = ''p2'', cells = [(''Name'', ''Beta''), (''Est:hrs'', ''2'')],
            created_time = None, last_edited_time = None\<rparr>"

definition estState :: "string \<Rightarrow> state" where
  "estState option =
     \<lparr>proxyUrl = ''https://proxy.example/'', databaseId = ''d9824bdc-8445-4327-be8b-5b47500af6ce'',
      columns = estColumns, rows = [estTen, estTwo], lastSynced = ''2024-01-01T00:00:00.000Z'',
      error = [], editingCell = None, sortBy = option, groupBy = [],
      filterColumn = [], filterOp = ''contains'', filterValue = []\<rparr>"

section \<open>Properties of the field decoder and the write-back mapper\<close>

lemmas js_string_defs = trim_def trimStart_def trimEnd_def isWhiteSpace_def toLowerCase_def
  lowerChar_def isUpper_def isDigit_def isHexDigit_def startsWith_def

lemma mapM_total: "\<forall>x\<in>set xs. \<exists>y. f x = Some y \<Longrightarrow> \<exists>ys. mapM f xs = Some ys"
  by (induction xs) auto

lemma optField_cases:
  assumes "optField v f P"
  obtains x where "getProp v f = Some x" "isNullish x \<or> P x"
  using assms by (auto simp: optField_def split: option.splits)

lemma isStr_iff: "isStr x \<longleftrightarrow> (\<exists>s. x = JStr s)"
  by (cases x) auto

lemma wfNamed_nested:
  assumes "optField v f (wfNamed g)"
  shows "\<exists>s. nestedOrEmpty v f g = Some (JStr s)"
proof -
  from assms obtain x where x: "getProp v f = Some x" "isNullish x \<or> wfNamed g x"
    by (rule optField_cases)
  show ?thesis
  proof (cases "isNullish x")
    case True
    with x show ?thesis by (simp add: nestedOrEmpty_def)
  next
    case False
    with x have "wfNamed g x" by simp
    then obtain y where y: "getProp x g = Some y" "isNullish y \<or> isStr y"
      by (auto simp: wfNamed_def elim: optField_cases)
    with x False show ?thesis
      by (cases "isNullish y") (auto simp: nestedOrEmpty_def isStr_iff)
  qed
qed

lemma richTextItem_total: "wfRichTextItem t \<Longrightarrow> \<exists>y. richTextItem t = Some y"
  by (auto simp: wfRichTextItem_def wfNamed_def richTextItem_def optField_def isNullish_def
      split: option.splits Option.bind_splits)

lemma richText_total:
  assumes "optField v f (isArrayOf wfRichTextItem)" "getProp v f = Some x"
  shows "\<exists>s. richTextToStr E x = Some (JStr s)"
proof (cases x)
  case (JArr items)
  with assms have "list_all wfRichTextItem items"
    by (auto simp: optField_def isNullish_def)
  then have "\<forall>t\<in>set items. \<exists>y. richTextItem t = Some y"
    by (auto simp: list_all_iff richTextItem_total)
  then obtain parts where "mapM richTextItem items = Some parts"
    using mapM_total by blast
  with JArr show ?thesis by (simp add: richTextToStr_def)
qed (simp_all add: richTextToStr_def)

lemma isRecord_getProp: "isRecord y \<Longrightarrow> \<exists>z. getProp y g = Some z"
  by (cases y) auto

lemma named_list_shape:
  assumes "optField v f (isArrayOf (wfNamed g))" "getProp v f = Some x"
  shows "isNullish x \<or> (\<exists>xs. x = JArr xs \<and> list_all isRecord xs)"
  using assms by (cases x) (auto simp: optField_def isNullish_def wfNamed_def list_all_iff)

lemma names_total:
  assumes "optField v f (isArrayOf (wfNamed g))" "getProp v f = Some x"
  shows "\<exists>ys. mapOrThrow x (\<lambda>s. getProp s g) = Some ys"
  using named_list_shape[OF assms]
proof
  assume "isNullish x"
  then show ?thesis by (simp add: mapOrThrow_def)
next
  assume "\<exists>xs. x = JArr xs \<and> list_all isRecord xs"
  then obtain xs where xs: "x = JArr xs" "list_all isRecord xs" by blast
  then have "\<forall>s\<in>set xs. \<exists>y. getProp s g = Some y"
    by (auto simp: list_all_iff isRecord_getProp)
  from mapM_total[OF this] xs show ?thesis by (simp add: mapOrThrow_def isNullish_def)
qed

lemma names_or_empty_total:
  assumes "optField v f (isArrayOf (wfNamed g))" "getProp v f = Some x"
  shows "\<exists>ys. mapOrThrow x (\<lambda>p. do { n \<leftarrow> getProp p g; Some (if isNullish n then JStr [] else n) }) = Some ys"
  using named_list_shape[OF assms]
proof
  assume "isNullish x"
  then show ?thesis by (simp add: mapOrThrow_def)
next
  assume "\<exists>xs. x = JArr xs \<and> list_all isRecord xs"
  then obtain xs where xs: "x = JArr xs" "list_all isRecord xs" by blast
  then have "\<forall>p\<in>set xs. \<exists>y. do { n \<leftarrow> getProp p g; Some (if isNullish n then JStr [] else n) } = Some y"
    using isRecord_getProp[where g = g] by (fastforce simp: list_all_iff)
  from mapM_total[OF this] xs show ?thesis by (simp add: mapOrThrow_def isNullish_def)
qed

lemma formula_total:
  assumes "getProp v ''formula'' = Some fo" "isNullish fo \<or> isRecord fo"
  shows "\<exists>s. (do { f \<leftarrow> getProp v ''formula'';
         if isNullish f then Some (JStr [])
         else do {
           s \<leftarrow> getProp f ''string'';
           if \<not> isNullish s then Some (JStr (ToString E s))
           else do {
             n \<leftarrow> getProp f ''number'';
             if \<not> isNullish n then Some (JStr (ToString E n))
             else do {
               b \<leftarrow> getProp f ''boolean'';
               Some (JStr (case b of JBool x \<Rightarrow> if x then ''Yes'' else ''No'' | _ \<Rightarrow> []))
             }
           }
         }
       }) = Some (JStr s)"
  using assms by (cases fo) (auto simp: isNullish_def)

lemma rollup_total:
  assumes "getProp v ''rollup'' = Some ro" "isNullish ro \<or> isRecord ro"
  shows "\<exists>s. (do {
         r \<leftarrow> getProp v ''rollup'';
         if isNullish r then Some (JStr [])
         else do {
           n \<leftarrow> getProp r ''number'';
           if \<not> isNullish n then Some (JStr (ToString E n))
           else do {
             a \<leftarrow> getProp r ''array'';
             Some (JStr (case a of JArr xs \<Rightarrow> natToString (length xs) | _ \<Rightarrow> []))
           }
         }
       }) = Some (JStr s)"
  using assms by (cases ro) (auto simp: isNullish_def)

lemma decode_wf:
  assumes wf: "wfPropertyValue v"
  shows "\<exists>s. decodeProperty E v = Some (JStr s)"
proof -
  from wf obtain kvs where v: "v = JObj kvs" by (cases v) (auto simp: wfPropertyValue_def)
  have get: "\<exists>x. getProp v f = Some x" for f by (simp add: v)
  obtain ty where ty: "getProp v ''type'' = Some ty" using get by blast
  obtain x1 where x1: "getProp v ''title'' = Some x1" using get by blast
  obtain x2 where x2: "getProp v ''rich_text'' = Some x2" using get by blast
  obtain nu where nu: "getProp v ''number'' = Some nu" using get by blast
  obtain cb where cb: "getProp v ''checkbox'' = Some cb" using get by blast
  have "optField v ''title'' (isArrayOf wfRichTextItem)" using wf by (simp add: wfPropertyValue_def)
  from richText_total[OF this x1] obtain s1 where t1: "richTextToStr E x1 = Some (JStr s1)" by blast
  have "optField v ''rich_text'' (isArrayOf wfRichTextItem)" using wf by (simp add: wfPropertyValue_def)
  from richText_total[OF this x2] obtain s2 where t2: "richTextToStr E x2 = Some (JStr s2)" by blast
  have "optField v ''select'' (wfNamed ''name'')" using wf by (simp add: wfPropertyValue_def)
  from wfNamed_nested[OF this] obtain s3 where sel: "nestedOrEmpty v ''select'' ''name'' = Some (JStr s3)" by blast
  have "optField v ''date'' (wfNamed ''start'')" using wf by (simp add: wfPropertyValue_def)
  from wfNamed_nested[OF this] obtain s4 where dat: "nestedOrEmpty v ''date'' ''start'' = Some (JStr s4)" by blast
  have "optField v ''status'' (wfNamed ''name'')" using wf by (simp add: wfPropertyValue_def)
  from wfNamed_nested[OF this] obtain s5 where sta: "nestedOrEmpty v ''status'' ''name'' = Some (JStr s5)" by blast
  obtain ms where ms: "getProp v ''multi_select'' = Some ms" using get by blast
  have "optField v ''multi_select'' (isArrayOf (wfNamed ''name''))" using wf by (simp add: wfPropertyValue_def)
  from names_total[OF this ms] obtain ys1 where msl: "mapOrThrow ms (\<lambda>s. getProp s ''name'') = Some ys1" by blast
  obtain ps where ps: "getProp v ''people'' = Some ps" using get by blast
  have "optField v ''people'' (isArrayOf (wfNamed ''name''))" using wf by (simp add: wfPropertyValue_def)
  from names_or_empty_total[OF this ps] obtain ys2 where
    psl: "mapOrThrow ps (\<lambda>p. do { n \<leftarrow> getProp p ''name''; Some (if isNullish n then JStr [] else n) }) = Some ys2"
    by blast
  have "optField v ''url'' isStr" using wf by (simp add: wfPropertyValue_def)
  then obtain u where u: "getProp v ''url'' = Some u" "isNullish u \<or> isStr u"
    by (rule optField_cases)
  then obtain s6 where url: "(if \<not> isNullish u then u else JStr []) = JStr s6"
    by (cases "isNullish u") (auto simp: isStr_iff)
  have "optField v ''formula'' (\<lambda>x. isRecord x \<and> optField x ''string'' isStr \<and> optField x ''number'' isNum
                 \<and> optField x ''boolean'' isBool)" using wf by (simp add: wfPropertyValue_def)
  then obtain fo where fo: "getProp v ''formula'' = Some fo" "isNullish fo \<or> isRecord fo"
    by (auto elim: optField_cases)
  from formula_total[OF this] obtain s7 where fml: "(do { f \<leftarrow> getProp v ''formula'';
         if isNullish f then Some (JStr [])
         else do {
           s \<leftarrow> getProp f ''string'';
           if \<not> isNullish s then Some (JStr (ToString E s))
           else do {
             n \<leftarrow> getProp f ''number'';
             if \<not> isNullish n then Some (JStr (ToString E n))
             else do {
               b \<leftarrow> getProp f ''boolean'';
               Some (JStr (case b of JBool x \<Rightarrow> if x then ''Yes'' else ''No'' | _ \<Rightarrow> []))
             }
           }
         }
       }) = Some (JStr s7)" by blast
  have "optField v ''rollup''
            (\<lambda>x. isRecord x \<and> optField x ''number'' isNum \<and> optField x ''array'' (isArrayOf (\<lambda>_. True)))"
    using wf by (simp add: wfPropertyValue_def)
  then obtain ro where ro: "getProp v ''rollup'' = Some ro" "isNullish ro \<or> isRecord ro"
    by (auto elim: optField_cases)
  from rollup_total[OF this] obtain s8 where rol: "(do {
         r \<leftarrow> getProp v ''rollup'';
         if isNullish r then Some (JStr [])
         else do {
           n \<leftarrow> getProp r ''number'';
           if \<not> isNullish n then Some (JStr (ToString E n))
           else do {
             a \<leftarrow> getProp r ''array'';
             Some (JStr (case a of JArr xs \<Rightarrow> natToString (length xs) | _ \<Rightarrow> []))
           }
         }
       }) = Some (JStr s8)" by blast
  show ?thesis
    unfolding decodeProperty_def
    by (simp only: ty x1 x2 nu cb t1 t2 sel dat sta ms msl ps psl u(1) url fml rol
        Option.bind.bind_lunit) simp
qed

lemma decode_array: "decodeProperty E (JArr xs) = Some (JStr [])"
  by (simp add: decodeProperty_def)

lemma update_values: "snd ` set (AList.update k v al) \<subseteq> insert v (snd ` set al)"
  by (induction al) auto

lemma assignCell_values: "snd ` set (assignCell k v al) \<subseteq> insert v (snd ` set al)"
  using update_values[of k v al] by (auto simp: assignCell_def)

lemma assignCell_keys:
  "fst ` set (assignCell k v al) = (if k = ''__proto__'' then fst ` set al else insert k (fst ` set al))"
  by (simp add: assignCell_def dom_update)

lemma parseLoop_total:
  assumes "\<forall>(k, v)\<in>set props. isRecord v \<longrightarrow> wfPropertyValue v"
    and "\<forall>(k, c)\<in>set cells0. isStr c"
  shows "\<exists>cells. parseLoop E cells0 props = Some cells \<and> (\<forall>(k, c)\<in>set cells. isStr c)
     \<and> fst ` set cells = fst ` set cells0
          \<union> {k. k \<noteq> ''__proto__'' \<and> (\<exists>v. (k, v) \<in> set props \<and> truthy v \<and> isObject v)}"
  using assms
proof (induction props arbitrary: cells0)
  case Nil
  then show ?case by simp
next
  case (Cons p props)
  obtain k v where p: "p = (k, v)" by (cases p)
  show ?case
  proof (cases "truthy v \<and> isObject v")
    case False
    from Cons.IH[of cells0] Cons.prems obtain cells where
      "parseLoop E cells0 props = Some cells" "\<forall>(k, c)\<in>set cells. isStr c"
      "fst ` set cells = fst ` set cells0
          \<union> {k. k \<noteq> ''__proto__'' \<and> (\<exists>v. (k, v) \<in> set props \<and> truthy v \<and> isObject v)}"
      by auto
    with False p show ?thesis by auto
  next
    case True
    have "\<exists>s. decodeProperty E v = Some (JStr s)"
    proof (cases "isRecord v")
      case True
      with Cons.prems(1) p have "wfPropertyValue v" by simp
      then show ?thesis by (rule decode_wf)
    next
      case False
      with True obtain xs where "v = JArr xs" by (cases v) auto
      then show ?thesis by (simp add: decode_array)
    qed
    then obtain s where s: "decodeProperty E v = Some (JStr s)" by blast
    let ?c1 = "assignCell k (JStr s) cells0"
    have "\<forall>(k, c)\<in>set ?c1. isStr c"
      using assignCell_values[of k "JStr s" cells0] Cons.prems(2) by fastforce
    from Cons.IH[OF _ this] Cons.prems(1) obtain cells where cells:
      "parseLoop E ?c1 props = Some cells" "\<forall>(k, c)\<in>set cells. isStr c"
      "fst ` set cells = fst ` set ?c1
          \<union> {k. k \<noteq> ''__proto__'' \<and> (\<exists>v. (k, v) \<in> set props \<and> truthy v \<and> isObject v)}"
      by auto
    have "fst ` set ?c1 = (if k = ''__proto__'' then fst ` set cells0 else insert k (fst ` set cells0))"
      by (rule assignCell_keys)
    with cells True p s show ?thesis by auto
  qed
qed

lemma matchesYes_emDash: "\<not> matchesYes emDash"
  by (simp add: matchesYes_def js_string_defs emDash_def)

lemma matchesYes_checkMark: "\<not> matchesYes checkMark"
  by (simp add: matchesYes_def js_string_defs checkMark_def)

lemma matchesYes_empty: "\<not> matchesYes []"
  by (simp add: matchesYes_def js_string_defs)

lemma decode_unknown_tag:
  assumes "getProp v ''type'' = Some ty" "ty \<notin> JStr ` set supportedTypes"
  shows "decodeProperty E v = Some (JStr [])"
proof -
  from assms(2) have "ty \<noteq> JStr ''title''" "ty \<noteq> JStr ''rich_text''" "ty \<noteq> JStr ''number''"
    "ty \<noteq> JStr ''select''" "ty \<noteq> JStr ''multi_select''" "ty \<noteq> JStr ''checkbox''"
    "ty \<noteq> JStr ''date''" "ty \<noteq> JStr ''url''" "ty \<noteq> JStr ''status''"
    "ty \<noteq> JStr ''people''" "ty \<noteq> JStr ''formula''" "ty \<noteq> JStr ''rollup''"
    by (simp_all add: supportedTypes_def image_iff)
  with assms(1) show ?thesis
    unfolding decodeProperty_def by simp
qed

lemma keys_member:
  assumes "K = A \<union> {k. k \<noteq> p \<and> (\<exists>v. (k, v) \<in> S \<and> P v \<and> Q v)}"
  shows "\<forall>(k, v)\<in>S. P v \<and> Q v \<and> k \<noteq> p \<longrightarrow> k \<in> K"
  unfolding assms by blast

text \<open>
  On property values of the declared shape (every payload missing, \<open>null\<close> or as the interface
  declares it, whatever the type tag) \<open>parseNotionProperties\<close> throws nothing, stores a string
  under the key of every object-valued entry not named \<open>__proto__\<close>, and stores nothing but
  strings; a value whose tag is none of the supported types decodes to the empty string.
\<close>

lemma decoder_total_on_declared_shapes:
  assumes wf: "\<forall>(k, v)\<in>set props. isRecord v \<longrightarrow> wfPropertyValue v"
  shows "\<exists>cells. parseNotionProperties E props = Some cells
        \<and> (\<forall>(k, c)\<in>set cells. isStr c)
        \<and> (\<forall>(k, v)\<in>set props. truthy v \<and> isObject v \<and> k \<noteq> ''__proto__'' \<longrightarrow> k \<in> fst ` set cells)
        \<and> (\<forall>(k, v)\<in>set props. truthy v \<and> isObject v \<longrightarrow>
              (\<forall>ty. getProp v ''type'' = Some ty \<longrightarrow> ty \<notin> JStr ` set supportedTypes \<longrightarrow>
                decodeProperty E v = Some (JStr [])))"
proof -
  have "\<forall>(k, c)\<in>set ([] :: (string \<times> jsval) list). isStr c" by simp
  from parseLoop_total[OF wf this, of E] obtain cells where all:
    "parseLoop E [] props = Some cells \<and> (\<forall>(k, c)\<in>set cells. isStr c)
     \<and> fst ` set cells = fst ` set ([] :: (string \<times> jsval) list)
          \<union> {k. k \<noteq> ''__proto__'' \<and> (\<exists>v. (k, v) \<in> set props \<and> truthy v \<and> isObject v)}"
    by (rule exE) (rule that)
  note cells = all[THEN conjunct1] all[THEN conjunct2, THEN conjunct1]
  note keys = all[THEN conjunct2, THEN conjunct2]
  have a: "\<forall>(k, v)\<in>set props. truthy v \<and> isObject v \<and> k \<noteq> ''__proto__'' \<longrightarrow> k \<in> fst ` set cells"
    by (rule keys_member[OF keys])
  have b: "\<forall>(k, v)\<in>set props. truthy v \<and> isObject v \<longrightarrow>
              (\<forall>ty. getProp v ''type'' = Some ty \<longrightarrow> ty \<notin> JStr ` set supportedTypes \<longrightarrow>
                decodeProperty E v = Some (JStr []))"
    using decode_unknown_tag by blast
  have "parseNotionProperties E props = Some cells"
    using cells(1) by (simp add: parseNotionProperties_def)
  with cells(2) a b show ?thesis
    by (intro exI[of _ cells] conjI)
qed

lemma decoder_total_on_example:
  "list_all (\<lambda>(k, v). wfPropertyValue v) exampleProperties
   \<and> parseNotionProperties exampleEnv exampleProperties
       = Some [(''Name'', JStr ''Alpha''), (''Score'', JStr ''3'')]"
  by code_simp




text \<open>
  The number written back is \<open>null\<close> for the empty string and whenever \<open>Number\<close> converts the
  string to \<open>NaN\<close>, and is otherwise a number that is not \<open>NaN\<close>. The mapper is a total
  function: it throws nothing.
\<close>

lemma number_payload_never_NaN:
  "buildNotionPropertyUpdate k ''number'' [] = [(k, JObj [(''type'', JStr ''number''), (''number'', JNull)])]
   \<and> (isNaN (Number_str v) \<longrightarrow>
        buildNotionPropertyUpdate k ''number'' v = [(k, JObj [(''type'', JStr ''number''), (''number'', JNull)])])
   \<and> (\<exists>x. buildNotionPropertyUpdate k ''number'' v = [(k, JObj [(''type'', JStr ''number''), (''number'', x)])]
          \<and> (x = JNull \<or> (\<exists>n. x = JNum n \<and> \<not> isNaN n)))"
  by (simp add: buildNotionPropertyUpdate_def Let_def)

text \<open>
  C1. A multi-select payload that is an object where the interface declares a list makes
  \<open>map\<close> a call on \<open>undefined\<close>: \<open>parseNotionProperties\<close> throws, where the claim has every
  malformed shape decode to the empty string. The same object as a rich-text payload decodes to
  the empty string: \<open>richTextToStr\<close> tests \<open>Array.isArray\<close> first.
\<close>

theorem multi_select_decoding_throws:
  "parseNotionProperties exampleEnv malformedProperties = None
   \<and> parseNotionProperties exampleEnv malformedRichText = Some [(''Notes'', JStr [])]"
  by (simp add: malformedProperties_def malformedRichText_def parseNotionProperties_def
      decodeProperty_def mapOrThrow_def richTextToStr_def isNullish_def assignCell_def)




text \<open>
  C7. For the string of one space the float parse fails (\<open>parseFloat\<close> gives \<open>NaN\<close>), and the
  claim has the number written back be \<open>null\<close>. The mapper tests \<open>value === ""\<close>, which a blank
  string passes, and converts with \<open>Number\<close>, which gives \<open>0\<close>: the payload holds the number
  \<open>0\<close>. For \<open>abc\<close> and for the empty string it holds \<open>null\<close>.
\<close>

theorem blank_number_written_as_zero:
  "isNaN (parseFloat '' '')
   \<and> Number_str '' '' = Finite 0
   \<and> buildNotionPropertyUpdate ''Score'' ''number'' '' ''
       = [(''Score'', JObj [(''type'', JStr ''number''), (''number'', JNum (Finite 0))])]
   \<and> isNaN (parseFloat ''abc'')
   \<and> buildNotionPropertyUpdate ''Score'' ''number'' ''abc''
       = [(''Score'', JObj [(''type'', JStr ''number''), (''number'', JNull)])]
   \<and> buildNotionPropertyUpdate ''Score'' ''number'' []
       = [(''Score'', JObj [(''type'', JStr ''number''), (''number'', JNull)])]"
  by code_simp

text \<open>
  C8 (as amended). For every type other than \<open>checkbox\<close>, \<open>date\<close> and \<open>number\<close>, formatting a
  formatted value changes nothing; for \<open>checkbox\<close> it changes nothing exactly when the value
  does not match \<open>1|true|yes\<close>. The function takes and returns strings only: no stored cell is
  within its reach. (For \<open>date\<close> and \<open>number\<close> the result is the locale's.)
\<close>

theorem format_idempotent_passthrough:
  "(ty \<noteq> ''checkbox'' \<and> ty \<noteq> ''date'' \<and> ty \<noteq> ''number'' \<longrightarrow>
      formatCellForDisplay E ty (formatCellForDisplay E ty v) = formatCellForDisplay E ty v)
   \<and> ((formatCellForDisplay E ''checkbox'' (formatCellForDisplay E ''checkbox'' v)
         = formatCellForDisplay E ''checkbox'' v) \<longleftrightarrow> \<not> matchesYes v)"
proof (intro conjI impI)
  assume "ty \<noteq> ''checkbox'' \<and> ty \<noteq> ''date'' \<and> ty \<noteq> ''number''"
  then show "formatCellForDisplay E ty (formatCellForDisplay E ty v) = formatCellForDisplay E ty v"
    by (simp add: formatCellForDisplay_def emDash_def)
next
  show "(formatCellForDisplay E ''checkbox'' (formatCellForDisplay E ''checkbox'' v)
         = formatCellForDisplay E ''checkbox'' v) \<longleftrightarrow> \<not> matchesYes v"
    using matchesYes_emDash matchesYes_checkMark matchesYes_empty
    by (auto simp add: formatCellForDisplay_def emDash_def checkMark_def)
qed

theorem format_idempotent_passthrough_witness:
  "(''url'' \<noteq> ''checkbox'' \<and> ''url'' \<noteq> ''date'' \<and> ''url'' \<noteq> ''number'')
   \<and> formatCellForDisplay exampleEnv ''url'' (formatCellForDisplay exampleEnv ''url'' ''https://a.b'')
       = formatCellForDisplay exampleEnv ''url'' ''https://a.b''
   \<and> formatCellForDisplay exampleEnv ''url'' ''https://a.b'' = ''https://a.b''"
  using format_idempotent_passthrough[of "''url''" exampleEnv "''https://a.b''"]
  by (simp add: formatCellForDisplay_def)

text \<open>
  C8 as stated fails for \<open>checkbox\<close>: \<open>yes\<close> is shown as the check mark, and the check mark is
  shown as the em-dash.
\<close>

theorem format_checkbox_not_idempotent:
  "formatCellForDisplay exampleEnv ''checkbox'' (formatCellForDisplay exampleEnv ''checkbox'' ''yes'')
   \<noteq> formatCellForDisplay exampleEnv ''checkbox'' ''yes''"
  by (simp add: formatCellForDisplay_def matchesYes_def js_string_defs emDash_def checkMark_def)




section \<open>Properties of the sync orchestrator\<close>

lemma databaseUrl_error [simp]: "databaseUrl (st\<lparr>error := e\<rparr>) = databaseUrl st"
  by (simp add: databaseUrl_def)

lemma buildSorts_error [simp]: "buildSorts (st\<lparr>error := e\<rparr>) = buildSorts st"
  by (simp add: buildSorts_def)

lemma sync_uses_normalized_id:
  "gw_get gw (databaseUrl st) = gw_get gw' (databaseUrl st)
   \<and> gw_post gw (databaseUrl st @ ''/query'') (buildSorts st) = gw_post gw' (databaseUrl st @ ''/query'') (buildSorts st)
   \<longrightarrow> fetchFromNotion E gw now st = fetchFromNotion E gw' now st"
proof (intro impI, elim conjE)
  assume g: "gw_get gw (databaseUrl st) = gw_get gw' (databaseUrl st)"
    and q: "gw_post gw (databaseUrl st @ ''/query'') (buildSorts st)
        = gw_post gw' (databaseUrl st @ ''/query'') (buildSorts st)"
  have "syncBody E gw now (st\<lparr>error := []\<rparr>) = syncBody E gw' now (st\<lparr>error := []\<rparr>)"
    by (simp add: syncBody_def g q)
  then show "fetchFromNotion E gw now st = fetchFromNotion E gw' now st"
    by (simp add: fetchFromNotion_def)
qed

lemma natToString_500: "natToString 500 = ''500''"
  by code_simp

text \<open>
  C2 (as amended). With endpoint and database id configured and both requests answered, a
  non-success query response leaves columns, rows and the last-synced timestamp as they were,
  and sets the error message: the fixed database-not-found guidance when the status is 404 or
  the body contains \<open>could not find\<close> or \<open>locate database\<close>, and otherwise \<open>Notion API:\<close>
  followed by the status code and the first 100 characters of the body.
\<close>

theorem failed_query_keeps_state:
  "trim (proxyUrl st) \<noteq> [] \<and> trim (databaseId st) \<noteq> []
   \<and> gw_get gw (databaseUrl st) = Resolved schemaRes
   \<and> gw_post gw (databaseUrl st @ ''/query'') (buildSorts st) = Resolved queryRes
   \<and> \<not> res_ok queryRes \<longrightarrow>
   (\<exists>st'. fetchFromNotion E gw now st = Done st'
      \<and> columns st' = columns st \<and> rows st' = rows st \<and> lastSynced st' = lastSynced st
      \<and> error st' =
          (if res_status queryRes = 404 \<or> includes_str (res_text queryRes) ''could not find''
              \<or> includes_str (res_text queryRes) ''locate database''
           then databaseNotFoundMessage
           else ''Notion API: '' @ natToString (res_status queryRes) @ '' '' @ take 100 (res_text queryRes)))"
proof (intro impI, elim conjE)
  assume cfg: "trim (proxyUrl st) \<noteq> []" "trim (databaseId st) \<noteq> []"
    and g: "gw_get gw (databaseUrl st) = Resolved schemaRes"
    and q: "gw_post gw (databaseUrl st @ ''/query'') (buildSorts st) = Resolved queryRes"
    and nok: "\<not> res_ok queryRes"
  have "fetchFromNotion E gw now st
      = Done (st\<lparr>error := queryErrorMessage (res_status queryRes) (res_text queryRes)\<rparr>)"
    using cfg nok by (simp add: fetchFromNotion_def syncBody_def awaitPromise_def g q)
  then show "\<exists>st'. fetchFromNotion E gw now st = Done st'
      \<and> columns st' = columns st \<and> rows st' = rows st \<and> lastSynced st' = lastSynced st
      \<and> error st' =
          (if res_status queryRes = 404 \<or> includes_str (res_text queryRes) ''could not find''
              \<or> includes_str (res_text queryRes) ''locate database''
           then databaseNotFoundMessage
           else ''Notion API: '' @ natToString (res_status queryRes) @ '' '' @ take 100 (res_text queryRes))"
    by (simp add: queryErrorMessage_def)
qed

theorem failed_query_keeps_state_witness:
  "trim (proxyUrl exampleState) \<noteq> [] \<and> trim (databaseId exampleState) \<noteq> []
   \<and> \<not> res_ok \<lparr>res_status = 500, res_text = ''boom'', res_json = Rejected ''Unexpected token'' :: NotionDatabaseQueryResponse promise\<rparr>
   \<and> (\<exists>st'. fetchFromNotion exampleEnv (exampleGateway 500 ''boom'') ''2024-02-02T00:00:00.000Z'' exampleState = Done st'
      \<and> columns st' = exampleColumns \<and> rows st' = [rowTen, rowTwo]
      \<and> lastSynced st' = ''2024-01-01T00:00:00.000Z''
      \<and> error st' = ''Notion API: 500 boom'')"
proof -
  let ?res = "\<lparr>res_status = 500, res_text = ''boom'', res_json = Rejected ''Unexpected token''\<rparr>"
  let ?gw = "exampleGateway 500 ''boom''"
  have cfg1: "trim (proxyUrl exampleState) \<noteq> []"
    by (simp add: exampleState_def js_string_defs)
  have cfg2: "trim (databaseId exampleState) \<noteq> []"
    by (simp add: exampleState_def js_string_defs)
  have nok: "\<not> res_ok (?res :: NotionDatabaseQueryResponse response)"
    by (simp add: res_ok_def)
  have g: "gw_get ?gw (databaseUrl exampleState) = Resolved ?res"
    by (simp add: exampleGateway_def)
  have q: "gw_post ?gw (databaseUrl exampleState @ ''/query'') (buildSorts exampleState) = Resolved ?res"
    by (simp add: exampleGateway_def)
  have inc: "\<not> includes_str ''boom'' ''could not find''" "\<not> includes_str ''boom'' ''locate database''"
    by (simp_all add: startsWith_def)
  note h = conjI[OF cfg1 conjI[OF cfg2 conjI[OF g conjI[OF q nok]]]]
  from mp[OF failed_query_keeps_state h, of exampleEnv "''2024-02-02T00:00:00.000Z''"]
  obtain st' where st': "fetchFromNotion exampleEnv ?gw ''2024-02-02T00:00:00.000Z'' exampleState = Done st'"
      "columns st' = columns exampleState" "rows st' = rows exampleState"
      "lastSynced st' = lastSynced exampleState"
      "error st' = ''Notion API: '' @ natToString 500 @ '' '' @ take 100 ''boom''"
    using inc by auto
  have e: "error st' = ''Notion API: 500 boom''"
    using st'(5) by (simp add: natToString_500)
  have c: "columns st' = exampleColumns" using st'(2) by (simp add: exampleState_def)
  have r: "rows st' = [rowTen, rowTwo]" using st'(3) by (simp add: exampleState_def)
  have l: "lastSynced st' = ''2024-01-01T00:00:00.000Z''" using st'(4) by (simp add: exampleState_def)
  from st'(1) c r l e cfg1 cfg2 nok show ?thesis by (intro conjI exI[of _ st']) 
qed

text \<open>
  C2 as stated fails for a 404 response: the message is the fixed guidance text, which holds
  neither the status code nor the body.
\<close>

theorem failed_query_404_message:
  "fetchFromNotion exampleEnv (exampleGateway 404 ''{}'') ''2024-02-02T00:00:00.000Z'' exampleState
     = Done (exampleState\<lparr>error := databaseNotFoundMessage\<rparr>)
   \<and> \<not> includes_str databaseNotFoundMessage ''404''
   \<and> \<not> includes_str databaseNotFoundMessage ''{}''"
proof -
  have cfg: "trim (proxyUrl exampleState) \<noteq> [] \<and> trim (databaseId exampleState) \<noteq> []"
    by (simp add: exampleState_def js_string_defs)
  have "fetchFromNotion exampleEnv (exampleGateway 404 ''{}'') ''2024-02-02T00:00:00.000Z'' exampleState
     = Done (exampleState\<lparr>error := databaseNotFoundMessage\<rparr>)"
    using cfg
    by (simp add: fetchFromNotion_def syncBody_def awaitPromise_def queryErrorMessage_def
        exampleGateway_def res_ok_def)
  moreover have "\<not> includes_str databaseNotFoundMessage ''404''"
    by (simp add: databaseNotFoundMessage_def rightArrow_def midEllipsis_def startsWith_def)
  moreover have "\<not> includes_str databaseNotFoundMessage ''{}''"
    by (simp add: databaseNotFoundMessage_def rightArrow_def midEllipsis_def startsWith_def)
  ultimately show ?thesis by blast
qed

text \<open>
  C3. With an edit in progress and the update request answered, the edit is cleared and the
  columns and the number of rows are kept; on success every row keeps its id and timestamps,
  a row with the edited id has the new value in the edited cell and all its other cells as
  before, and every other row is unchanged; on a failure response the rows are unchanged.
\<close>

theorem cell_update_frame:
  "editingCell st = Some cell
   \<and> gw_patch gw (pageUrl st cell)
        (buildNotionPropertyUpdate (ec_property cell) (effectiveType st cell) newValue) = Resolved res \<longrightarrow>
   editingCell (saveCellEdit gw newValue st) = None
   \<and> columns (saveCellEdit gw newValue st) = columns st
   \<and> length (rows (saveCellEdit gw newValue st)) = length (rows st)
   \<and> (res_ok res \<longrightarrow>
        (\<forall>i < length (rows st).
           let r = rows st ! i; r' = rows (saveCellEdit gw newValue st) ! i in
           pageId r' = pageId r \<and> created_time r' = created_time r
           \<and> last_edited_time r' = last_edited_time r
           \<and> (pageId r = ec_pageId cell \<longrightarrow>
                map_of (cells r') (ec_property cell) = Some newValue
                \<and> (\<forall>k. k \<noteq> ec_property cell \<longrightarrow> map_of (cells r') k = map_of (cells r) k))
           \<and> (pageId r \<noteq> ec_pageId cell \<longrightarrow> r' = r)))
   \<and> (\<not> res_ok res \<longrightarrow> rows (saveCellEdit gw newValue st) = rows st)"
  by (auto simp: saveCellEdit_def Let_def update_conv')

theorem cell_update_frame_witness:
  "editingCell exampleState = Some exampleCell
   \<and> rows (saveCellEdit (exampleGateway 200 ''{}'') ''7'' exampleState)
       = [rowTen\<lparr>cells := [(''Name'', ''Alpha''), (''Score'', ''7'')]\<rparr>, rowTwo]
   \<and> editingCell (saveCellEdit (exampleGateway 200 ''{}'') ''7'' exampleState) = None
   \<and> rows (saveCellEdit (exampleGateway 500 ''oops'') ''7'' exampleState) = [rowTen, rowTwo]"
proof -
  have ec: "editingCell exampleState = Some exampleCell" by (simp add: exampleState_def)
  have ok: "gw_patch (exampleGateway 200 ''{}'') (pageUrl exampleState exampleCell)
        (buildNotionPropertyUpdate (ec_property exampleCell) (effectiveType exampleState exampleCell) ''7'')
      = Resolved \<lparr>res_status = 200, res_text = ''{}'', res_json = Rejected ''Unexpected token''\<rparr>"
    by (simp add: exampleGateway_def)
  have bad: "gw_patch (exampleGateway 500 ''oops'') (pageUrl exampleState exampleCell)
        (buildNotionPropertyUpdate (ec_property exampleCell) (effectiveType exampleState exampleCell) ''7'')
      = Resolved \<lparr>res_status = 500, res_text = ''oops'', res_json = Rejected ''Unexpected token''\<rparr>"
    by (simp add: exampleGateway_def)
  have nok: "\<not> res_ok \<lparr>res_status = 500, res_text = ''oops'', res_json = Rejected ''Unexpected token'' :: unit promise\<rparr>"
    by (simp add: res_ok_def)
  from cell_update_frame[of exampleState exampleCell "exampleGateway 500 ''oops''" "''7''"] ec bad nok
  have a: "rows (saveCellEdit (exampleGateway 500 ''oops'') ''7'' exampleState) = rows exampleState"
    by blast
  from cell_update_frame[of exampleState exampleCell "exampleGateway 200 ''{}''" "''7''"] ec ok
  have b: "editingCell (saveCellEdit (exampleGateway 200 ''{}'') ''7'' exampleState) = None"
    by blast
  have c: "rows (saveCellEdit (exampleGateway 200 ''{}'') ''7'' exampleState)
       = [rowTen\<lparr>cells := [(''Name'', ''Alpha''), (''Score'', ''7'')]\<rparr>, rowTwo]"
    by (simp add: saveCellEdit_def exampleState_def exampleCell_def exampleGateway_def res_ok_def
        rowTen_def rowTwo_def)
  from a b c ec show ?thesis by (simp add: exampleState_def)
qed

section \<open>Properties of the view deriver\<close>

lemma set_insertWith: "set (insertWith cmp x ys) = insert x (set ys)"
  by (induction ys) auto

lemma mset_insertWith: "mset (insertWith cmp x ys) = add_mset x (mset ys)"
  by (induction ys) auto

lemma mset_sortWith: "mset (sortWith cmp xs) = mset xs"
  by (induction xs) (auto simp: sortWith_def mset_insertWith)

lemma set_sortWith: "set (sortWith cmp xs) = set xs"
  by (metis mset_sortWith set_mset_mset)

lemma bucketRows_invariant:
  assumes "distinct (map fst m)"
    and "\<forall>(k, rs)\<in>set m. rs = filter (\<lambda>r. cellOr emDash r g = k) seen"
    and "fst ` set m = (\<lambda>r. cellOr emDash r g) ` set seen"
  shows "distinct (map fst (bucketRows g m xs))
     \<and> (\<forall>(k, rs)\<in>set (bucketRows g m xs). rs = filter (\<lambda>r. cellOr emDash r g = k) (seen @ xs))
     \<and> fst ` set (bucketRows g m xs) = (\<lambda>r. cellOr emDash r g) ` set (seen @ xs)"
  using assms
proof (induction xs arbitrary: m seen)
  case Nil
  then show ?case by simp
next
  case (Cons row rest)
  define v where "v = cellOr emDash row g"
  define m1 where "m1 = (if v \<in> fst ` set m then m else m @ [(v, [])])"
  define m2 where "m2 = map (\<lambda>(k, rs). if k = v then (k, rs @ [row]) else (k, rs)) m1"
  have step: "bucketRows g m (row # rest) = bucketRows g m2 rest"
    by (simp add: v_def m1_def m2_def Let_def)
  have fresh: "filter (\<lambda>r. cellOr emDash r g = v) seen = []" if "v \<notin> fst ` set m"
    using that Cons.prems(3) by (auto simp: filter_empty_conv)
  have d1: "distinct (map fst m1)"
    using Cons.prems(1) by (auto simp: m1_def)
  have c1: "\<forall>(k, rs)\<in>set m1. rs = filter (\<lambda>r. cellOr emDash r g = k) seen"
    using Cons.prems(2) fresh by (auto simp: m1_def)
  have k1: "fst ` set m1 = insert v ((\<lambda>r. cellOr emDash r g) ` set seen)"
    using Cons.prems(3) by (auto simp: m1_def)
  have fst2: "map fst m2 = map fst m1"
    by (auto simp: m2_def)
  have d2: "distinct (map fst m2)" using d1 fst2 by simp
  have c2: "\<forall>(k, rs)\<in>set m2. rs = filter (\<lambda>r. cellOr emDash r g = k) (seen @ [row])"
    using c1 by (fastforce simp: m2_def v_def split: if_splits)
  have "fst ` set m2 = fst ` set m1"
    using fst2 by (metis list.set_map)
  with k1 have k2: "fst ` set m2 = (\<lambda>r. cellOr emDash r g) ` set (seen @ [row])"
    by (auto simp: v_def)
  from Cons.IH[OF d2 c2 k2] show ?case
    unfolding step by simp
qed

lemma bucketRows_lookup:
  assumes "k \<in> fst ` set (bucketRows g [] xs)"
  shows "map_of (bucketRows g [] xs) k = Some (filter (\<lambda>r. cellOr emDash r g = k) xs)"
proof -
  from bucketRows_invariant[of "[]" g "[]" xs]
  have d: "distinct (map fst (bucketRows g [] xs))"
    and c: "\<forall>(k, rs)\<in>set (bucketRows g [] xs). rs = filter (\<lambda>r. cellOr emDash r g = k) xs"
    by simp_all
  from assms obtain rs where rs: "(k, rs) \<in> set (bucketRows g [] xs)" by auto
  with c have "rs = filter (\<lambda>r. cellOr emDash r g = k) xs" by auto
  with rs d show ?thesis by simp
qed

lemma getGroupedRows_Done:
  assumes "groupBy st \<noteq> []" "isKnownColumn st (groupBy st)"
    and "getSortedRows E st = Done srows" "getGroupedRows E st = Done groups"
  shows "groups = map (\<lambda>k. \<lparr>groupValue = k, group_rows = the (map_of (bucketRows (groupBy st) [] srows) k)\<rparr>)
           (sortWith (keyCompare E (find (\<lambda>c. propertyName c = groupBy st) (columns st)))
              (map fst (bucketRows (groupBy st) [] srows)))"
  using assms by (simp add: getGroupedRows_def Let_def split: if_splits)

lemma grouped_buckets_keep_sorted_order:
  assumes "groupBy st \<noteq> []" "isKnownColumn st (groupBy st)"
    and "getSortedRows E st = Done srows" "getGroupedRows E st = Done groups"
    and "grp \<in> set groups"
  shows "group_rows grp = filter (\<lambda>r. cellOr emDash r (groupBy st) = groupValue grp) srows"
proof -
  let ?m = "bucketRows (groupBy st) [] srows"
  from assms(5) obtain k where k: "k \<in> fst ` set ?m" "grp = \<lparr>groupValue = k, group_rows = the (map_of ?m k)\<rparr>"
    unfolding getGroupedRows_Done[OF assms(1-4)] by (auto simp: set_sortWith)
  from bucketRows_lookup[OF k(1)] k(2) show ?thesis by simp
qed

lemma grouped_bucket_keys:
  assumes "groupBy st \<noteq> []" "isKnownColumn st (groupBy st)"
    and "getSortedRows E st = Done srows" "getGroupedRows E st = Done groups"
  shows "distinct (map groupValue groups)"
    and "set (map groupValue groups) = (\<lambda>r. cellOr emDash r (groupBy st)) ` set srows"
proof -
  let ?m = "bucketRows (groupBy st) [] srows"
  let ?col = "find (\<lambda>c. propertyName c = groupBy st) (columns st)"
  have keys: "map groupValue groups = sortWith (keyCompare E ?col) (map fst ?m)"
    unfolding getGroupedRows_Done[OF assms] by (simp add: comp_def)
  from bucketRows_invariant[of "[]" "groupBy st" "[]" srows]
  have d: "distinct (map fst ?m)"
    and f: "fst ` set ?m = (\<lambda>r. cellOr emDash r (groupBy st)) ` set srows"
    by simp_all
  from d show "distinct (map groupValue groups)"
    unfolding keys by (metis mset_sortWith mset_eq_imp_distinct_iff)
  from f show "set (map groupValue groups) = (\<lambda>r. cellOr emDash r (groupBy st)) ` set srows"
    unfolding keys by (simp add: set_sortWith)
qed

lemma sorted_rows_are_filtered_rows:
  assumes "sortBy st = [] \<or> fst (splitSortBy (sortBy st)) \<noteq> []"
    and "getFilteredRows E st = Done filtered" "getSortedRows E st = Done srows"
  shows "mset srows = mset filtered"
  using assms
  by (auto simp: getSortedRows_def Let_def mset_sortWith split: prod.splits if_splits)

text \<open>
  C5, evaluated where the code departs from it. A column named \<open>:x\<close> puts \<open>:x:asc\<close> in the sort
  menu; the sort key read from it is empty, and \<open>getSortedRows\<close> returns all rows instead of
  the filtered rows: the grouped view shows a row that the filter excludes. (By
  \<open>grouped_buckets_keep_sorted_order\<close> each bucket does keep the order of
  \<open>getSortedRows\<close>, and by \<open>sorted_rows_are_filtered_rows\<close> the sorted rows are the
  filtered rows whenever the sort is unset or its key is not empty.)
\<close>

theorem grouped_view_drops_filter:
  "getFilteredRows exampleEnv colonState = Done [rowTen]
   \<and> getSortedRows exampleEnv colonState = Done [rowTen, rowTwo]
   \<and> getGroupedRows exampleEnv colonState = Done [\<lparr>groupValue = [], group_rows = [rowTen, rowTwo]\<rparr>]"
  by code_simp

text \<open>
  C6, evaluated where the code departs from it. A number column named \<open>Est:hrs\<close> puts
  \<open>Est:hrs:asc\<close> in the sort menu; \<open>getSortedRows\<close> reads from it the key \<open>Est\<close>, which is no
  column and no cell of a row: every row sorts as the empty string, and the rows with
  estimates \<open>10\<close> and \<open>2\<close> stay in that order, where the claim has the row of \<open>2\<close> first. (In
  the column \<open>Score\<close> of scenario D the cells are compared as numbers and the row of \<open>2\<close>
  comes first.)
\<close>

theorem colon_named_number_column_unsorted:
  "splitSortBy ''Est:hrs:asc'' = (''Est'', Some ''hrs'')
   \<and> getCellSortValue (estState ''Est:hrs:asc'') estTen ''Est'' = Some (SStr [])
   \<and> getCellSortValue (estState ''Est:hrs:asc'') estTwo ''Est'' = Some (SStr [])
   \<and> getSortedRows exampleEnv (estState ''Est:hrs:asc'') = Done [estTen, estTwo]
   \<and> getCellSortValue exampleState rowTen ''Score'' = Some (SNum (Finite 10))
   \<and> getCellSortValue exampleState rowTwo ''Score'' = Some (SNum (Finite 2))
   \<and> getSortedRows exampleEnv exampleState = Done [rowTwo, rowTen]"
  by code_simp

section \<open>Properties of the database id normalisation\<close>

lemma char_le_iff: "(c \<le> d) = ((of_char c :: nat) \<le> of_char d)"
  by (simp add: less_eq_char_def)

lemma lowerChar_code: "of_char (lowerChar c) = (if 65 \<le> (of_char c :: nat) \<and> (of_char c :: nat) \<le> 90 then of_char c + 32 else (of_char c :: nat))"
proof -
  have "(of_char c :: nat) < 256" by simp
  then show ?thesis
    by (auto simp: lowerChar_def isUpper_def char_le_iff)
qed

lemma isHexDigit_nat: "isHexDigit c = (let n = (of_char c :: nat) in (48 \<le> n \<and> n \<le> 57) \<or> (97 \<le> n \<and> n \<le> 102) \<or> (65 \<le> n \<and> n \<le> 70))"
  by (simp add: isHexDigit_def isDigit_def char_le_iff Let_def)

lemma isWhiteSpace_nat: "isWhiteSpace c = (let n = (of_char c :: nat) in n = 9 \<or> n = 10 \<or> n = 11 \<or> n = 12 \<or> n = 13 \<or> n = 32)"
proof -
  have e: "(c = d) = ((of_char c :: nat) = of_char d)" for d by auto
  show ?thesis
    unfolding isWhiteSpace_def Let_def by (simp add: e)
qed

lemma isHexDigit_lowerChar [simp]: "isHexDigit (lowerChar c) = isHexDigit c"
  by (auto simp: isHexDigit_nat lowerChar_code Let_def)

lemma isWhiteSpace_lowerChar [simp]: "isWhiteSpace (lowerChar c) = isWhiteSpace c"
  by (auto simp: isWhiteSpace_nat lowerChar_code Let_def)

lemma lowerChar_dash [simp]: "(lowerChar c = CHR ''-'') = (c = CHR ''-'')"
proof -
  have e: "(a = d) = ((of_char a :: nat) = of_char d)" for a d :: char by auto
  show ?thesis by (auto simp: e lowerChar_code)
qed

lemma lowerChar_idem [simp]: "lowerChar (lowerChar c) = lowerChar c"
proof -
  have "(of_char (lowerChar (lowerChar c)) :: nat) = of_char (lowerChar c)"
    by (auto simp: lowerChar_code)
  then show ?thesis by simp
qed

lemma isHexDigit_not_ws: "isHexDigit c \<Longrightarrow> \<not> isWhiteSpace c"
  by (auto simp: isHexDigit_nat isWhiteSpace_nat Let_def)

lemma toLowerCase_idem [simp]: "toLowerCase (toLowerCase s) = toLowerCase s"
  by (simp add: toLowerCase_def)

lemma length_toLowerCase [simp]: "length (toLowerCase s) = length s"
  by (simp add: toLowerCase_def)

lemma hex_toLowerCase [simp]: "list_all isHexDigit (toLowerCase s) = list_all isHexDigit s"
  by (simp add: toLowerCase_def list_all_iff)

lemma trimStart_toLowerCase: "trimStart (toLowerCase s) = toLowerCase (trimStart s)"
  by (simp add: trimStart_def toLowerCase_def dropWhile_map comp_def)

lemma trimEnd_toLowerCase: "trimEnd (toLowerCase s) = toLowerCase (trimEnd s)"
  by (simp add: trimEnd_def toLowerCase_def dropWhile_map comp_def rev_map)

lemma trim_toLowerCase: "trim (toLowerCase s) = toLowerCase (trim s)"
  by (simp add: trim_def trimStart_toLowerCase trimEnd_toLowerCase)

lemma filter_toLowerCase:
  "filter (\<lambda>c. c \<noteq> CHR ''-'') (toLowerCase s) = toLowerCase (filter (\<lambda>c. c \<noteq> CHR ''-'') s)"
  by (simp add: toLowerCase_def filter_map comp_def)

lemma hexMatch_toLowerCase: "hexMatch (toLowerCase s) = map_option toLowerCase (hexMatch s)"
proof (induction s)
  case Nil
  then show ?case by (simp add: toLowerCase_def)
next
  case (Cons c cs)
  have "take 32 (toLowerCase (c # cs)) = toLowerCase (take 32 (c # cs))"
    by (simp add: toLowerCase_def take_map)
  moreover have "toLowerCase (c # cs) = lowerChar c # toLowerCase cs"
    by (simp add: toLowerCase_def)
  ultimately show ?case
    using Cons.IH
    by (metis (no_types, lifting) hexMatch.simps(2) hex_toLowerCase length_toLowerCase option.simps(9))
qed

lemma hexMatch_Some: "hexMatch s = Some m \<Longrightarrow> length m = 32 \<and> list_all isHexDigit m"
  by (induction s) (auto split: if_splits)

lemma hexMatch_exact: "length r = 32 \<Longrightarrow> list_all isHexDigit r \<Longrightarrow> hexMatch r = Some r"
  by (cases r) auto

lemma trimStart_length: "length (trimStart s) = length s \<Longrightarrow> trimStart s = s"
  unfolding trimStart_def
  by (metis append_eq_conv_conj length_append add_cancel_left_left length_0_conv takeWhile_dropWhile_id append_Nil)

lemma trimEnd_length: "length (trimEnd s) = length s \<Longrightarrow> trimEnd s = s"
proof -
  assume "length (trimEnd s) = length s"
  then have "length (dropWhile isWhiteSpace (rev s)) = length (rev s)"
    by (simp add: trimEnd_def)
  then have "dropWhile isWhiteSpace (rev s) = rev s"
    using trimStart_length[of "rev s"] by (simp add: trimStart_def)
  then show ?thesis by (simp add: trimEnd_def)
qed

lemma trimStart_le: "length (trimStart s) \<le> length s"
  by (simp add: trimStart_def length_dropWhile_le)

lemma trimEnd_le: "length (trimEnd s) \<le> length s"
  using length_dropWhile_le[of isWhiteSpace "rev s"] by (simp add: trimEnd_def)

lemma trim_length: "length (trim s) = length s \<Longrightarrow> trim s = s"
proof -
  assume a: "length (trim s) = length s"
  have "length (trim s) \<le> length (trimStart s)" by (simp add: trim_def trimEnd_le)
  with a trimStart_le[of s] have "length (trimStart s) = length s" by simp
  then have s: "trimStart s = s" by (rule trimStart_length)
  with a have "length (trimEnd s) = length s" by (simp add: trim_def)
  then have "trimEnd s = s" by (rule trimEnd_length)
  with s show ?thesis by (simp add: trim_def)
qed

lemma set_trim: "set (trim s) \<subseteq> set s"
proof -
  have "set (trimEnd x) \<subseteq> set x" for x
    using set_dropWhileD[of _ isWhiteSpace "rev x"] by (auto simp: trimEnd_def)
  moreover have "set (trimStart x) \<subseteq> set x" for x
    using set_dropWhileD[of _ isWhiteSpace x] by (auto simp: trimStart_def)
  ultimately show ?thesis unfolding trim_def by blast
qed

lemma trim_hex: "list_all isHexDigit r \<Longrightarrow> trim r = r"
proof -
  assume h: "list_all isHexDigit r"
  then have nws: "\<forall>c\<in>set r. \<not> isWhiteSpace c" by (auto simp: list_all_iff isHexDigit_not_ws)
  have "dropWhile isWhiteSpace x = x" if "\<forall>c\<in>set x. \<not> isWhiteSpace c" for x
    using that by (cases x) auto
  from this[of r] this[of "rev r"] nws show ?thesis
    by (simp add: trim_def trimStart_def trimEnd_def)
qed

lemma normalize_fixed_hex:
  assumes "length r = 32" "list_all isHexDigit r"
  shows "normalizeDatabaseId (toLowerCase r) = toLowerCase r"
proof -
  have "trim (toLowerCase r) = toLowerCase r" using assms by (simp add: trim_hex)
  moreover have "hexMatch (toLowerCase r) = Some (toLowerCase r)"
    using assms by (simp add: hexMatch_exact)
  ultimately show ?thesis by (simp add: normalizeDatabaseId_def)
qed

lemma normalize_idempotent_iff:
  "normalizeDatabaseId (normalizeDatabaseId s) = normalizeDatabaseId s \<longleftrightarrow>
     hexMatch (trim s) \<noteq> None
     \<or> (let d = filter (\<lambda>c. c \<noteq> CHR ''-'') (trim s) in
          (length d = 32 \<and> list_all isHexDigit d) \<or> (hexMatch d = None \<and> trim d = d))"
proof (cases "hexMatch (trim s)")
  case (Some m)
  then have "normalizeDatabaseId s = toLowerCase m" by (simp add: normalizeDatabaseId_def)
  with hexMatch_Some[OF Some] normalize_fixed_hex[of m] Some show ?thesis by simp
next
  case None
  define d where "d = filter (\<lambda>c. c \<noteq> CHR ''-'') (trim s)"
  have r: "normalizeDatabaseId s = toLowerCase d"
    using None by (simp add: normalizeDatabaseId_def d_def)
  have nodash: "filter (\<lambda>c. c \<noteq> CHR ''-'') (trim d) = trim d"
    using set_trim[of d] by (auto simp: d_def filter_id_conv)
  show ?thesis
  proof (cases "hexMatch (trim d)")
    case (Some m')
    then have n: "normalizeDatabaseId (toLowerCase d) = toLowerCase m'"
      by (simp add: normalizeDatabaseId_def trim_toLowerCase hexMatch_toLowerCase)
    from hexMatch_Some[OF Some] have m': "length m' = 32" "list_all isHexDigit m'" by simp_all
    have "toLowerCase m' = toLowerCase d \<longleftrightarrow> length d = 32 \<and> list_all isHexDigit d"
    proof
      assume e: "toLowerCase m' = toLowerCase d"
      then have "length d = length m'" by (metis length_toLowerCase)
      moreover from e have "list_all isHexDigit d = list_all isHexDigit m'" by (metis hex_toLowerCase)
      ultimately show "length d = 32 \<and> list_all isHexDigit d" using m' by simp
    next
      assume h: "length d = 32 \<and> list_all isHexDigit d"
      then have "trim d = d" by (simp add: trim_hex)
      with Some h have "m' = d" by (simp add: hexMatch_exact)
      then show "toLowerCase m' = toLowerCase d" by simp
    qed
    moreover have "hexMatch d = None \<and> trim d = d \<Longrightarrow> False" using Some by auto
    ultimately show ?thesis using None r n by (auto simp: d_def[symmetric] Let_def)
  next
    case None': None
    have n: "normalizeDatabaseId (toLowerCase d) = toLowerCase (trim d)"
      using None' by (simp add: normalizeDatabaseId_def trim_toLowerCase hexMatch_toLowerCase
          filter_toLowerCase nodash)
    have "toLowerCase (trim d) = toLowerCase d \<longleftrightarrow> trim d = d"
    proof
      assume "toLowerCase (trim d) = toLowerCase d"
      then have "length (trim d) = length d" by (metis length_toLowerCase)
      then show "trim d = d" by (rule trim_length)
    qed simp
    moreover have "\<not> (length d = 32 \<and> list_all isHexDigit d)"
    proof
      assume h: "length d = 32 \<and> list_all isHexDigit d"
      then have "trim d = d" by (simp add: trim_hex)
      with h None' show False by (simp add: hexMatch_exact)
    qed
    moreover have "trim d = d \<Longrightarrow> hexMatch d = None" using None' by simp
    ultimately show ?thesis using None r n by (auto simp: d_def[symmetric] Let_def)
  qed
qed

text \<open>
  C10 (as amended). \<open>normalizeDatabaseId\<close> is idempotent on exactly the inputs whose trimmed
  form holds a block of 32 hexadecimal characters, or whose trimmed form without its dashes is
  either 32 hexadecimal characters or a string with no such block and no white space at its
  ends. The sync addresses the database by the normalised id, and its outcome depends on the
  gateway only through the answers to the two requests at that address.
\<close>

theorem normalize_idempotent_and_used:
  "(normalizeDatabaseId (normalizeDatabaseId s) = normalizeDatabaseId s \<longleftrightarrow>
      hexMatch (trim s) \<noteq> None
      \<or> (let d = filter (\<lambda>c. c \<noteq> CHR ''-'') (trim s) in
           (length d = 32 \<and> list_all isHexDigit d) \<or> (hexMatch d = None \<and> trim d = d)))
   \<and> databaseUrl st
       = stripTrailingSlash (proxyUrl st) @ ''/notion/databases/'' @ normalizeDatabaseId (databaseId st)
   \<and> (gw_get gw (databaseUrl st) = gw_get gw' (databaseUrl st)
       \<and> gw_post gw (databaseUrl st @ ''/query'') (buildSorts st)
           = gw_post gw' (databaseUrl st @ ''/query'') (buildSorts st) \<longrightarrow>
       fetchFromNotion E gw now st = fetchFromNotion E gw' now st)"
proof (intro conjI)
  show "normalizeDatabaseId (normalizeDatabaseId s) = normalizeDatabaseId s \<longleftrightarrow>
      hexMatch (trim s) \<noteq> None
      \<or> (let d = filter (\<lambda>c. c \<noteq> CHR ''-'') (trim s) in
           (length d = 32 \<and> list_all isHexDigit d) \<or> (hexMatch d = None \<and> trim d = d))"
    by (rule normalize_idempotent_iff)
  show "databaseUrl st
       = stripTrailingSlash (proxyUrl st) @ ''/notion/databases/'' @ normalizeDatabaseId (databaseId st)"
    by (simp add: databaseUrl_def)
  show "gw_get gw (databaseUrl st) = gw_get gw' (databaseUrl st)
       \<and> gw_post gw (databaseUrl st @ ''/query'') (buildSorts st)
           = gw_post gw' (databaseUrl st @ ''/query'') (buildSorts st) \<longrightarrow>
       fetchFromNotion E gw now st = fetchFromNotion E gw' now st"
    by (rule sync_uses_normalized_id)
qed

theorem normalize_idempotent_and_used_witness:
  "normalizeDatabaseId ''  D9824BDC-8445-4327-BE8B-5B47500AF6CE '' = ''d9824bdc84454327be8b5b47500af6ce''
   \<and> normalizeDatabaseId (normalizeDatabaseId ''  D9824BDC-8445-4327-BE8B-5B47500AF6CE '')
       = normalizeDatabaseId ''  D9824BDC-8445-4327-BE8B-5B47500AF6CE ''
   \<and> fetchFromNotion exampleEnv (exampleGateway 500 ''boom'') ''2024-02-02T00:00:00.000Z'' exampleState
       = fetchFromNotion exampleEnv ((exampleGateway 500 ''boom'')\<lparr>gw_patch := (\<lambda>_ _. Rejected ''offline'')\<rparr>)
           ''2024-02-02T00:00:00.000Z'' exampleState"
proof -
  let ?s = "''  D9824BDC-8445-4327-BE8B-5B47500AF6CE ''"
  let ?gw = "exampleGateway 500 ''boom''"
  let ?gw' = "(exampleGateway 500 ''boom'')\<lparr>gw_patch := (\<lambda>_ _. Rejected ''offline'')\<rparr>"
  note inst = normalize_idempotent_and_used[where s = ?s and st = exampleState and gw = ?gw
      and gw' = ?gw' and E = exampleEnv and now = "''2024-02-02T00:00:00.000Z''"]
  have v: "normalizeDatabaseId ?s = ''d9824bdc84454327be8b5b47500af6ce''" by code_simp
  have "let d = filter (\<lambda>c. c \<noteq> CHR ''-'') (trim ?s) in
           (length d = 32 \<and> list_all isHexDigit d) \<or> (hexMatch d = None \<and> trim d = d)"
    by code_simp
  with inst[THEN conjunct1] have i: "normalizeDatabaseId (normalizeDatabaseId ?s) = normalizeDatabaseId ?s"
    by blast
  have g: "gw_get ?gw (databaseUrl exampleState) = gw_get ?gw' (databaseUrl exampleState)
       \<and> gw_post ?gw (databaseUrl exampleState @ ''/query'') (buildSorts exampleState)
           = gw_post ?gw' (databaseUrl exampleState @ ''/query'') (buildSorts exampleState)"
    by simp
  from mp[OF inst[THEN conjunct2, THEN conjunct2] g] v i show ?thesis by (intro conjI)
qed

text \<open>
  C10 as stated fails on a pasted URL that holds the id in its dashed form: the first pass
  removes the dashes of the whole URL, and the second pass finds the hexadecimal block that
  the first pass uncovered.
\<close>

theorem normalize_not_idempotent_on_dashed_url:
  "normalizeDatabaseId (normalizeDatabaseId ''https://www.notion.so/d9824bdc-8445-4327-be8b-5b47500af6ce'')
   \<noteq> normalizeDatabaseId ''https://www.notion.so/d9824bdc-8445-4327-be8b-5b47500af6ce''"
  by code_simp

end
